theory Spec2Isabelle
  imports Complex_Main "HOL-Library.AList"
begin

section \<open>Data model (core.py, lines 23-73)\<close>

datatype ProcessingState =
  IDLE | READING_WORDS | GENERATING_CONTENT | GENERATING_AUDIO | COPYING_AUDIO
  | SENDING_TO_ANKI | COMPLETED | FAILED | CANCELLED

text \<open>
  Python floats (\<open>tts_delay\<close>, \<open>estimated_time_remaining\<close>) are read as reals: the
  product of the source is the product of the model. \<open>start_time\<close> is a reading of the
  clock, a natural number here.
\<close>

record ProcessingStats =
  total_words :: nat
  processed_words :: nat
  failed_words :: nat
  skipped_words :: nat
  current_word :: "string option"
  estimated_time_remaining :: "real option"
  start_time :: "nat option"

record GeneratorConfig =
  words_file :: string
  deck_name :: string
  model_name :: string
  reverse_model_name :: string
  audio_dir :: string
  audio_cache_dir :: string
  checkpoint_file :: string
  tts_delay :: real
  skip_existing_audio :: bool
  test_mode :: bool
  generate_reverse_cards :: bool

record FlashcardData =
  word :: string
  translation :: string
  example_sentence_da :: string
  example_sentence_en :: string
  audio_word_file :: "string option"
  audio_sentence_file :: "string option"
  error :: "string option"

text \<open>
  Python tests \<open>if flashcard.error\<close>, \<open>if flashcard.audio_word_file\<close> and
  \<open>if word_cached\<close> by truth value: \<open>None\<close> and the empty string are both false.
\<close>

definition truthy :: "string option \<Rightarrow> bool" where
  "truthy x = (case x of None \<Rightarrow> False | Some s \<Rightarrow> s \<noteq> [])"

section \<open>The world outside the generator\<close>

text \<open>The note dictionary handed to \<open>addNote\<close> (core.py, lines 495-509 and 521-535).\<close>

record anki_note =
  deckName :: string
  modelName :: string
  note_fields :: "(string \<times> string) list"
  allowDuplicate :: bool

text \<open>
  Every format string of the source that reaches the callback is a constructor, with the
  interpolated values as arguments.
\<close>

datatype message =
    MsgCacheMetadataUnreadable
  | MsgCancelling
  | MsgCheckpointLoaded nat
  | MsgCheckpointUnreadable
  | MsgReadingWords
  | MsgWordsLoaded nat string
  | MsgSkipping string
  | MsgGeneratingContent string
  | MsgGeneratedContent string
  | MsgError string
  | MsgUsingCachedAudio string
  | MsgGeneratingWordAudio string
  | MsgGeneratedWordAudio string
  | MsgRateLimit
  | MsgGeneratingSentenceAudio string
  | MsgGeneratedSentenceAudio string
  | MsgNoMediaDirQuery string
  | MsgCopyingAudio
  | MsgMediaDirNotFound string
  | MsgMediaDir string
  | MsgCopied string
  | MsgSending
  | MsgAddedForward string
  | MsgForwardFailed string string
  | MsgAddedReverse string
  | MsgReverseFailed string string
  | MsgProcessing nat nat string
  | MsgCompleted nat nat
  | MsgRunError string

text \<open>
  What the generator does to the outside, in order: callback notifications, backend calls,
  sleeps and file copies.
\<close>

datatype event =
    Callback ProcessingState ProcessingStats message
  | GenerateCall string
  | TtsCall string string
  | Sleep real
  | CopyFile string string
  | GetMediaDirPath
  | AddNote anki_note

fun is_callback :: "event \<Rightarrow> bool" where
  "is_callback (Callback s st m) = True"
| "is_callback e = False"

fun is_generate_call :: "event \<Rightarrow> bool" where
  "is_generate_call (GenerateCall w) = True"
| "is_generate_call e = False"

fun is_tts_call :: "event \<Rightarrow> bool" where
  "is_tts_call (TtsCall t f) = True"
| "is_tts_call e = False"

fun is_add_note :: "event \<Rightarrow> bool" where
  "is_add_note (AddNote n) = True"
| "is_add_note e = False"

text \<open>The calls and effects of a trace, without the callback notifications.\<close>

definition effects :: "event list \<Rightarrow> event list" where
  "effects t = filter (\<lambda>e. \<not> is_callback e) t"

text \<open>
  Results of the backends. \<open>g_generate\<close> followed by \<open>json.loads\<close> gives a JSON
  object with string values, text that is not JSON, or an exception of the backend.
  \<open>tts_generate\<close> succeeds, raises \<open>ClientError\<close> with a status code, or raises
  something else; the strings are \<open>str(e)\<close>.
\<close>

datatype gen_result = GenObject "(string \<times> string) list" | GenNotJson | GenRaises string

datatype tts_artifact = Plain | Doubled | Elsewhere

datatype tts_result = TtsDone tts_artifact | TtsClientError int string | TtsRaises string

datatype file_content =
    Directory
  | WordList "string list"
  | AudioData string
  | CheckpointJson "(string \<times> FlashcardData) list"
  | CacheMetadataJson "(string \<times> string) list"
  | OtherData

text \<open>
  The backends and the other thread are oracles. A backend answers its k-th call
  (counted from 0) on given arguments; \<open>cancel_req n\<close> says that the front-end thread
  runs \<open>cancel()\<close> right after the n-th event of the run.
\<close>

record env =
  g_generate :: "nat \<Rightarrow> string \<Rightarrow> gen_result"
  tts_generate :: "nat \<Rightarrow> string \<Rightarrow> string \<Rightarrow> tts_result"
  anki_media_dir :: "string + string"
  anki_add_note :: "nat \<Rightarrow> anki_note \<Rightarrow> string option"
  md5_hex :: "string \<Rightarrow> string"
  cancel_req :: "nat \<Rightarrow> bool"
  now :: nat
  platform_system :: string
  home :: string

type_synonym addr = nat

text \<open>
  The generator object together with the disk and the trace. Flashcards are objects that
  the checkpoint dictionary and the list of \<open>run\<close> share, so they live in a store
  (\<open>records\<close>) and are named by address. Dictionaries keep insertion order, as Python's.
\<close>

record generator =
  stats :: ProcessingStats
  state :: ProcessingState
  cancelled :: bool
  checkpoint :: "(string \<times> addr) list"
  audio_cache_metadata :: "(string \<times> string) list"
  records :: "addr \<Rightarrow> FlashcardData"
  next_addr :: addr
  fs :: "string \<Rightarrow> file_content option"
  trace :: "event list"

datatype exn = FileNotFoundError string | FileExistsError string | ValueError string
  | OtherException string

section \<open>Strings and paths\<close>

text \<open>
  A character is a code point below 256. \<open>str.isspace\<close> and the regular expression
  \<open>\s\<close> hold of these code points.
\<close>

definition is_space :: "char \<Rightarrow> bool" where
  "is_space c = (of_char c \<in> {9, 10, 11, 12, 13, 28, 29, 30, 31, 32, 133, 160 :: nat})"

definition strip :: "string \<Rightarrow> string" where
  "strip s = rev (dropWhile is_space (rev (dropWhile is_space s)))"

definition startswith :: "string \<Rightarrow> string \<Rightarrow> bool" where
  "startswith s p = (take (length p) s = p)"

definition endswith :: "string \<Rightarrow> string \<Rightarrow> bool" where
  "endswith s p = (length p \<le> length s \<and> drop (length s - length p) s = p)"

text \<open>\<open>os.path.join\<close> of posixpath, for two and more components.\<close>

definition path_join :: "string \<Rightarrow> string \<Rightarrow> string" where
  "path_join a b =
     (if startswith b ''/'' then b
      else if a = [] \<or> endswith a ''/'' then a @ b
      else a @ ''/'' @ b)"

definition path_joins :: "string \<Rightarrow> string list \<Rightarrow> string" where
  "path_joins a ps = foldl path_join a ps"

definition basename :: "string \<Rightarrow> string" where
  "basename p = rev (takeWhile (\<lambda>c. c \<noteq> CHR ''/'') (rev p))"

text \<open>
  \<open>normalize_filename\<close> (core.py, lines 265-271): three substitutions. The first
  removes every leftmost shortest \<open><...>\<close> that has no newline inside, the second turns
  each run of whitespace into one underscore, the third keeps letters, digits,
  underscore and hyphen.
\<close>

function strip_tags :: "string \<Rightarrow> string" where
  "strip_tags [] = []"
| "strip_tags (c # cs) =
     (if c = CHR ''<'' then
        (case dropWhile (\<lambda>x. x \<noteq> CHR ''>'' \<and> x \<noteq> CHR 0x0A) cs of
           [] \<Rightarrow> c # strip_tags cs
         | d # rest \<Rightarrow> if d = CHR ''>'' then strip_tags rest else c # strip_tags cs)
      else c # strip_tags cs)"
  by pat_completeness auto
termination
proof (relation "measure length")
  show "wf (measure length)" by simp
next
  fix c :: char and cs d rest
  assume "dropWhile (\<lambda>x. x \<noteq> CHR ''>'' \<and> x \<noteq> CHR 0x0A) cs = d # rest"
  then have "length (d # rest) \<le> length cs"
    by (metis length_dropWhile_le)
  then show "(rest, c # cs) \<in> measure length" by simp
qed auto

function spaces_to_underscore :: "string \<Rightarrow> string" where
  "spaces_to_underscore [] = []"
| "spaces_to_underscore (c # cs) =
     (if is_space c then CHR ''_'' # spaces_to_underscore (dropWhile is_space cs)
      else c # spaces_to_underscore cs)"
  by pat_completeness auto
termination
  by (relation "measure length") (auto simp: length_dropWhile_le less_Suc_eq_le)

definition is_filename_char :: "char \<Rightarrow> bool" where
  "is_filename_char c =
     (let n = (of_char c :: nat) in
        (97 \<le> n \<and> n \<le> 122) \<or> (65 \<le> n \<and> n \<le> 90) \<or> (48 \<le> n \<and> n \<le> 57)
        \<or> c = CHR ''_'' \<or> c = CHR ''-'')"

definition normalize_filename :: "string \<Rightarrow> string" where
  "normalize_filename text = filter is_filename_char (spaces_to_underscore (strip_tags text))"

section \<open>Callback, state and cancellation (core.py, lines 196-210)\<close>

definition append_event :: "event \<Rightarrow> generator \<Rightarrow> generator" where
  "append_event e g = g\<lparr>trace := trace g @ [e]\<rparr>"

text \<open>\<open>cancel\<close> (lines 207-210), run by the front-end thread.\<close>

definition cancel :: "generator \<Rightarrow> generator" where
  "cancel g =
     (let g1 = g\<lparr>cancelled := True\<rparr>;
          g2 = g1\<lparr>state := CANCELLED\<rparr>
      in append_event (Callback CANCELLED (stats g2) MsgCancelling) g2)"

text \<open>
  The generator is modelled with a callback installed, as the front-end installs one. Each
  event is a point where the other thread may have run \<open>cancel\<close>.
\<close>

definition emit :: "env \<Rightarrow> event \<Rightarrow> generator \<Rightarrow> generator" where
  "emit ev e g =
     (let g1 = append_event e g
      in if cancel_req ev (length (trace g1)) then cancel g1 else g1)"

definition update_state :: "env \<Rightarrow> ProcessingState \<Rightarrow> message \<Rightarrow> generator \<Rightarrow> generator" where
  "update_state ev s m g = (let g1 = g\<lparr>state := s\<rparr> in emit ev (Callback s (stats g1) m) g1)"

definition log_message :: "env \<Rightarrow> message \<Rightarrow> generator \<Rightarrow> generator" where
  "log_message ev m g = emit ev (Callback (state g) (stats g) m) g"

text \<open>
  \<open>time.sleep\<close> raises \<open>ValueError\<close> for a negative length and sleeps otherwise; the
  result is the text of the exception, if any.
\<close>

definition sleep :: "env \<Rightarrow> real \<Rightarrow> generator \<Rightarrow> string option \<times> generator" where
  "sleep ev d g =
     (if d < 0 then (Some ''sleep length must be non-negative'', g)
      else (None, emit ev (Sleep d) g))"

section \<open>Files\<close>

text \<open>
  The disk maps a path to what is stored there. Writing a file and copying an existing
  file succeed; reading a file of another kind than expected fails as a malformed file
  does.
\<close>

definition exists :: "generator \<Rightarrow> string \<Rightarrow> bool" where
  "exists g p = (fs g p \<noteq> None)"

definition write_file :: "string \<Rightarrow> file_content \<Rightarrow> generator \<Rightarrow> generator" where
  "write_file p c g = g\<lparr>fs := (fs g)(p \<mapsto> c)\<rparr>"

definition remove_file :: "string \<Rightarrow> generator \<Rightarrow> generator" where
  "remove_file p g = g\<lparr>fs := (fs g)(p := None)\<rparr>"

definition copy2 :: "env \<Rightarrow> string \<Rightarrow> string \<Rightarrow> generator \<Rightarrow> generator" where
  "copy2 ev src dst g = emit ev (CopyFile src dst) (g\<lparr>fs := (fs g)(dst := fs g src)\<rparr>)"

text \<open>A Python dictionary built from key-value pairs: a later pair replaces an earlier one.\<close>

definition dict_of :: "('k \<times> 'v) list \<Rightarrow> ('k \<times> 'v) list" where
  "dict_of kvs = fold (\<lambda>(k, v) d. AList.update k v d) kvs []"

section \<open>Cache Store (core.py, lines 135-194)\<close>

definition metadata_file :: "GeneratorConfig \<Rightarrow> string" where
  "metadata_file cfg = path_join (audio_cache_dir cfg) ''cache_metadata.json''"

definition load_audio_cache_metadata ::
  "env \<Rightarrow> GeneratorConfig \<Rightarrow> generator \<Rightarrow> (string \<times> string) list \<times> generator" where
  "load_audio_cache_metadata ev cfg g =
     (case fs g (metadata_file cfg) of
        None \<Rightarrow> ([], g)
      | Some (CacheMetadataJson kvs) \<Rightarrow> (dict_of kvs, g)
      | Some other \<Rightarrow> ([], log_message ev MsgCacheMetadataUnreadable g))"

definition save_audio_cache_metadata :: "GeneratorConfig \<Rightarrow> generator \<Rightarrow> generator" where
  "save_audio_cache_metadata cfg g =
     write_file (metadata_file cfg) (CacheMetadataJson (audio_cache_metadata g)) g"

definition get_audio_cache_key :: "env \<Rightarrow> string \<Rightarrow> string" where
  "get_audio_cache_key ev text = md5_hex ev text"

definition get_cached_audio :: "env \<Rightarrow> GeneratorConfig \<Rightarrow> generator \<Rightarrow> string \<Rightarrow> string option" where
  "get_cached_audio ev cfg g text =
     (let cache_key = get_audio_cache_key ev text
      in case map_of (audio_cache_metadata g) cache_key of
           Some cached_file \<Rightarrow>
             if exists g (path_join (audio_cache_dir cfg) cached_file) then Some cached_file
             else None
         | None \<Rightarrow> None)"

definition store_in_cache ::
  "env \<Rightarrow> GeneratorConfig \<Rightarrow> string \<Rightarrow> string \<Rightarrow> string \<Rightarrow> generator \<Rightarrow> generator" where
  "store_in_cache ev cfg src cache_key cache_filename g =
     (let g1 = copy2 ev src (path_join (audio_cache_dir cfg) cache_filename) g;
          g2 = g1\<lparr>audio_cache_metadata :=
                    AList.update cache_key cache_filename (audio_cache_metadata g1)\<rparr>
      in save_audio_cache_metadata cfg g2)"

definition cache_audio ::
  "env \<Rightarrow> GeneratorConfig \<Rightarrow> string \<Rightarrow> string \<Rightarrow> generator \<Rightarrow> string option \<times> generator" where
  "cache_audio ev cfg text source_filename g =
     (let cache_key = get_audio_cache_key ev text;
          source_path = path_join (audio_dir cfg) source_filename;
          cache_filename = cache_key @ ''.wav'';
          source_alt = source_path @ ''.wav''
      in if exists g source_path
         then (Some cache_filename, store_in_cache ev cfg source_path cache_key cache_filename g)
         else if exists g source_alt
         then (Some cache_filename, store_in_cache ev cfg source_alt cache_key cache_filename g)
         else (None, g))"

section \<open>Checkpoint Store (core.py, lines 212-246)\<close>

definition alloc :: "FlashcardData \<Rightarrow> generator \<Rightarrow> addr \<times> generator" where
  "alloc fc g =
     (next_addr g, g\<lparr>records := (records g)(next_addr g := fc), next_addr := Suc (next_addr g)\<rparr>)"

definition load_entry :: "string \<times> FlashcardData \<Rightarrow> generator \<Rightarrow> generator" where
  "load_entry kv g =
     (let (a, g1) = alloc (snd kv) g
      in g1\<lparr>checkpoint := AList.update (fst kv) a (checkpoint g1)\<rparr>)"

definition load_checkpoint :: "env \<Rightarrow> GeneratorConfig \<Rightarrow> generator \<Rightarrow> generator" where
  "load_checkpoint ev cfg g =
     (case fs g (checkpoint_file cfg) of
        None \<Rightarrow> g
      | Some (CheckpointJson kvs) \<Rightarrow>
          (let g1 = fold load_entry kvs (g\<lparr>checkpoint := []\<rparr>)
           in log_message ev (MsgCheckpointLoaded (length (checkpoint g1))) g1)
      | Some other \<Rightarrow> log_message ev MsgCheckpointUnreadable g)"

definition dump_checkpoint :: "generator \<Rightarrow> (string \<times> FlashcardData) list" where
  "dump_checkpoint g = map (\<lambda>(k, a). (k, records g a)) (checkpoint g)"

definition save_checkpoint :: "GeneratorConfig \<Rightarrow> generator \<Rightarrow> generator" where
  "save_checkpoint cfg g = write_file (checkpoint_file cfg) (CheckpointJson (dump_checkpoint g)) g"

section \<open>Construction (core.py, lines 105-133)\<close>

definition new_stats :: ProcessingStats where
  "new_stats =
     \<lparr>total_words = 0, processed_words = 0, failed_words = 0, skipped_words = 0,
      current_word = None, estimated_time_remaining = None, start_time = None\<rparr>"

definition no_flashcard :: FlashcardData where
  "no_flashcard =
     \<lparr>word = [], translation = [], example_sentence_da = [], example_sentence_en = [],
      audio_word_file = None, audio_sentence_file = None, error = None\<rparr>"

definition makedirs :: "string \<Rightarrow> generator \<Rightarrow> exn + generator" where
  "makedirs p g =
     (case fs g p of
        None \<Rightarrow> Inr (write_file p Directory g)
      | Some Directory \<Rightarrow> Inr g
      | Some other \<Rightarrow> Inl (FileExistsError p))"

definition init ::
  "env \<Rightarrow> GeneratorConfig \<Rightarrow> (string \<Rightarrow> file_content option) \<Rightarrow> exn + generator" where
  "init ev cfg disk =
     (let g = \<lparr>stats = new_stats, state = IDLE, cancelled = False, checkpoint = [],
               audio_cache_metadata = [], records = (\<lambda>a. no_flashcard), next_addr = 0,
               fs = disk, trace = []\<rparr>
      in case makedirs (audio_dir cfg) g of
           Inl e \<Rightarrow> Inl e
         | Inr g1 \<Rightarrow>
            (case makedirs (audio_cache_dir cfg) g1 of
               Inl e \<Rightarrow> Inl e
             | Inr g2 \<Rightarrow>
                (let g3 = load_checkpoint ev cfg g2;
                     (md, g4) = load_audio_cache_metadata ev cfg g3
                 in Inr (g4\<lparr>audio_cache_metadata := md\<rparr>))))"

section \<open>Reading the words (core.py, lines 248-263)\<close>

definition read_words ::
  "env \<Rightarrow> GeneratorConfig \<Rightarrow> generator \<Rightarrow> (exn + string list) \<times> generator" where
  "read_words ev cfg g =
     (let g1 = update_state ev READING_WORDS MsgReadingWords g
      in case fs g1 (words_file cfg) of
           None \<Rightarrow> (Inl (FileNotFoundError (''Words file not found: '' @ words_file cfg)), g1)
         | Some (WordList lines) \<Rightarrow>
             (let words = filter (\<lambda>w. w \<noteq> [] \<and> \<not> startswith w ''#'') (map strip lines)
              in (Inr words, log_message ev (MsgWordsLoaded (length words) (words_file cfg)) g1))
         | Some other \<Rightarrow> (Inl (OtherException (words_file cfg)), g1))"

section \<open>Content Stage (core.py, lines 273-319)\<close>

definition failed_flashcard :: "string \<Rightarrow> string \<Rightarrow> FlashcardData" where
  "failed_flashcard w error_msg =
     \<lparr>word = w, translation = [], example_sentence_da = [], example_sentence_en = [],
      audio_word_file = None, audio_sentence_file = None, error = Some error_msg\<rparr>"

text \<open>
  The four lookups \<open>data['word']\<close>, ... of lines 290-295; a missing key raises
  \<open>KeyError\<close>, whose text is the key in single quotes.
\<close>

definition key_error :: "string \<Rightarrow> string" where
  "key_error k = [CHR 0x27] @ k @ [CHR 0x27]"

definition flashcard_of_json :: "(string \<times> string) list \<Rightarrow> string + FlashcardData" where
  "flashcard_of_json d =
     (case map_of d ''word'' of
        None \<Rightarrow> Inl (key_error ''word'')
      | Some w \<Rightarrow>
     (case map_of d ''translation'' of
        None \<Rightarrow> Inl (key_error ''translation'')
      | Some t \<Rightarrow>
     (case map_of d ''example_sentence_da'' of
        None \<Rightarrow> Inl (key_error ''example_sentence_da'')
      | Some da \<Rightarrow>
     (case map_of d ''example_sentence_en'' of
        None \<Rightarrow> Inl (key_error ''example_sentence_en'')
      | Some en \<Rightarrow>
          Inr \<lparr>word = w, translation = t, example_sentence_da = da, example_sentence_en = en,
               audio_word_file = None, audio_sentence_file = None, error = None\<rparr>))))"

definition content_failure :: "env \<Rightarrow> string \<Rightarrow> string \<Rightarrow> generator \<Rightarrow> addr \<times> generator" where
  "content_failure ev w error_msg g =
     alloc (failed_flashcard w error_msg) (log_message ev (MsgError error_msg) g)"

text \<open>
  The prompt is the fixed template with the word filled in, so the backend is asked by
  word.
\<close>

definition generate_content_for_word :: "env \<Rightarrow> string \<Rightarrow> generator \<Rightarrow> addr \<times> generator" where
  "generate_content_for_word ev w g =
     (case map_of (checkpoint g) w of
        Some a \<Rightarrow> (a, log_message ev (MsgSkipping w) g)
      | None \<Rightarrow>
         (let g1 = g\<lparr>stats := (stats g)\<lparr>current_word := Some w\<rparr>\<rparr>;
              g2 = update_state ev GENERATING_CONTENT (MsgGeneratingContent w) g1;
              response = g_generate ev (length (filter is_generate_call (trace g2))) w;
              g3 = emit ev (GenerateCall w) g2
          in case response of
               GenRaises m \<Rightarrow>
                 content_failure ev w (''Error generating content for '' @ w @ '': '' @ m) g3
             | GenNotJson \<Rightarrow> content_failure ev w (''Failed to parse JSON for '' @ w) g3
             | GenObject d \<Rightarrow>
                (case flashcard_of_json d of
                   Inl m \<Rightarrow>
                     content_failure ev w (''Error generating content for '' @ w @ '': '' @ m) g3
                 | Inr fc \<Rightarrow>
                    (let (a, g4) = alloc fc g3
                     in (a, log_message ev (MsgGeneratedContent w) g4)))))"

section \<open>Audio Stage (core.py, lines 321-417)\<close>

text \<open>
  Modelled from the spec: \<open>tts.generate\<close>, the speech-synthesis backend, which "accepts
  text + target filename, produces an audio artifact on disk; surfaces rate-limit errors
  distinguishably from other failures". The artifact is stored in the audio directory
  under the file name with one or with a doubled extension (the two places the source
  looks at), or somewhere the generator does not look.
\<close>

definition tts_store ::
  "GeneratorConfig \<Rightarrow> string \<Rightarrow> string \<Rightarrow> tts_artifact \<Rightarrow> generator \<Rightarrow> generator" where
  "tts_store cfg text filename art g =
     (case art of
        Plain \<Rightarrow> write_file (path_join (audio_dir cfg) (filename @ ''.wav'')) (AudioData text) g
      | Doubled \<Rightarrow>
          write_file (path_join (audio_dir cfg) (filename @ ''.wav'') @ ''.wav'') (AudioData text) g
      | Elsewhere \<Rightarrow> g)"

definition tts_call ::
  "env \<Rightarrow> GeneratorConfig \<Rightarrow> string \<Rightarrow> string \<Rightarrow> generator \<Rightarrow> tts_result \<times> generator" where
  "tts_call ev cfg text filename g =
     (let r = tts_generate ev (length (filter is_tts_call (trace g))) text filename;
          g1 = emit ev (TtsCall text filename) g
      in (r, case r of TtsDone art \<Rightarrow> tts_store cfg text filename art g1 | other \<Rightarrow> g1))"

definition set_audio_word_file :: "addr \<Rightarrow> string \<Rightarrow> generator \<Rightarrow> generator" where
  "set_audio_word_file a f g =
     g\<lparr>records := (records g)(a := (records g a)\<lparr>audio_word_file := Some f\<rparr>)\<rparr>"

definition set_audio_sentence_file :: "addr \<Rightarrow> string \<Rightarrow> generator \<Rightarrow> generator" where
  "set_audio_sentence_file a f g =
     g\<lparr>records := (records g)(a := (records g a)\<lparr>audio_sentence_file := Some f\<rparr>)\<rparr>"

definition set_error :: "addr \<Rightarrow> string \<Rightarrow> generator \<Rightarrow> generator" where
  "set_error a m g = g\<lparr>records := (records g)(a := (records g a)\<lparr>error := Some m\<rparr>)\<rparr>"

text \<open>
  The sleep of the configured delay after a successful synthesis (lines 360, 370, 397 and
  406) stands inside the \<open>try\<close> of that synthesis: when it raises, the handler of the
  \<open>try\<close> sets the error, with its own prefix, and the stage returns \<open>False\<close>.
\<close>

definition sleep_after_audio ::
  "env \<Rightarrow> GeneratorConfig \<Rightarrow> addr \<Rightarrow> string \<Rightarrow> generator \<Rightarrow> bool \<times> generator" where
  "sleep_after_audio ev cfg a prefix g =
     (let (s, g1) = sleep ev (tts_delay cfg) g
      in case s of
           None \<Rightarrow> (True, g1)
         | Some m \<Rightarrow> (False, set_error a (prefix @ m) g1))"

text \<open>Lines 366-373: the retry of the word audio after the backoff.\<close>

definition retry_word_audio :: "env \<Rightarrow> GeneratorConfig \<Rightarrow> addr \<Rightarrow> generator \<Rightarrow> bool \<times> generator" where
  "retry_word_audio ev cfg a g =
     (let w = word (records g a);
          word_file = normalize_filename w;
          (r, g1) = tts_call ev cfg w word_file g
      in case r of
           TtsDone art \<Rightarrow>
             (let g2 = set_audio_word_file a (word_file @ ''.wav'') g1;
                  (c, g3) = cache_audio ev cfg w (word_file @ ''.wav'') g2
              in sleep_after_audio ev cfg a ''Failed to generate word audio: '' g3)
         | TtsClientError code m \<Rightarrow>
             (False, set_error a (''Failed to generate word audio: '' @ m) g1)
         | TtsRaises m \<Rightarrow>
             (False, set_error a (''Failed to generate word audio: '' @ m) g1))"

text \<open>Lines 344-379: the word audio when the cache has none.\<close>

definition synthesize_word_audio ::
  "env \<Rightarrow> GeneratorConfig \<Rightarrow> addr \<Rightarrow> generator \<Rightarrow> bool \<times> generator" where
  "synthesize_word_audio ev cfg a g =
     (let w = word (records g a);
          word_file = normalize_filename w;
          g1 = update_state ev GENERATING_AUDIO (MsgGeneratingWordAudio w) g;
          (r, g2) = tts_call ev cfg w word_file g1
      in case r of
           TtsDone art \<Rightarrow>
             (let g3 = set_audio_word_file a (word_file @ ''.wav'') g2;
                  (c, g4) = cache_audio ev cfg w (word_file @ ''.wav'') g3;
                  g5 = log_message ev (MsgGeneratedWordAudio w) g4
              in if \<not> cancelled g5
                 then sleep_after_audio ev cfg a ''Error generating word audio: '' g5
                 else (True, g5))
         | TtsClientError code m \<Rightarrow>
             if code = 429 then
               (let g3 = log_message ev MsgRateLimit g2;
                    g4 = snd (sleep ev 20 g3)
                in retry_word_audio ev cfg a g4)
             else (False, set_error a (''TTS error: '' @ m) g2)
         | TtsRaises m \<Rightarrow> (False, set_error a (''Error generating word audio: '' @ m) g2))"

text \<open>Lines 335-379: the word audio, from the cache when it has it.\<close>

definition generate_word_audio ::
  "env \<Rightarrow> GeneratorConfig \<Rightarrow> addr \<Rightarrow> generator \<Rightarrow> bool \<times> generator" where
  "generate_word_audio ev cfg a g =
     (let w = word (records g a);
          word_file = normalize_filename w;
          word_path = path_join (audio_dir cfg) (word_file @ ''.wav'');
          word_cached = get_cached_audio ev cfg g w
      in case word_cached of
           None \<Rightarrow> synthesize_word_audio ev cfg a g
         | Some cached_file \<Rightarrow>
             if cached_file = [] then synthesize_word_audio ev cfg a g
             else
               (let cache_path = path_join (audio_cache_dir cfg) cached_file;
                    g1 = copy2 ev cache_path word_path g;
                    g2 = set_audio_word_file a (word_file @ ''.wav'') g1
                in (True, log_message ev (MsgUsingCachedAudio w) g2)))"

text \<open>Lines 403-409: the retry of the sentence audio after the backoff.\<close>

definition retry_sentence_audio ::
  "env \<Rightarrow> GeneratorConfig \<Rightarrow> addr \<Rightarrow> generator \<Rightarrow> bool \<times> generator" where
  "retry_sentence_audio ev cfg a g =
     (let fc = records g a;
          sentence_file = normalize_filename (word fc) @ ''_sentence'';
          (r, g1) = tts_call ev cfg (example_sentence_da fc) sentence_file g
      in case r of
           TtsDone art \<Rightarrow>
             (let g2 = set_audio_sentence_file a (sentence_file @ ''.wav'') g1
              in sleep_after_audio ev cfg a ''Failed to generate sentence audio: '' g2)
         | TtsClientError code m \<Rightarrow>
             (False, set_error a (''Failed to generate sentence audio: '' @ m) g1)
         | TtsRaises m \<Rightarrow>
             (False, set_error a (''Failed to generate sentence audio: '' @ m) g1))"

text \<open>Lines 384-417: the sentence audio, never from the cache.\<close>

definition generate_sentence_audio ::
  "env \<Rightarrow> GeneratorConfig \<Rightarrow> addr \<Rightarrow> generator \<Rightarrow> bool \<times> generator" where
  "generate_sentence_audio ev cfg a g =
     (let fc = records g a;
          sentence_file = normalize_filename (word fc) @ ''_sentence'';
          g1 = update_state ev GENERATING_AUDIO (MsgGeneratingSentenceAudio (word fc)) g;
          (r, g2) = tts_call ev cfg (example_sentence_da fc) sentence_file g1
      in case r of
           TtsDone art \<Rightarrow>
             (let g3 = set_audio_sentence_file a (sentence_file @ ''.wav'') g2;
                  g4 = log_message ev (MsgGeneratedSentenceAudio (word fc)) g3
              in if \<not> cancelled g4
                 then sleep_after_audio ev cfg a ''Error generating sentence audio: '' g4
                 else (True, g4))
         | TtsClientError code m \<Rightarrow>
             if code = 429 then
               (let g3 = log_message ev MsgRateLimit g2;
                    g4 = snd (sleep ev 20 g3)
                in retry_sentence_audio ev cfg a g4)
             else (False, set_error a (''TTS error: '' @ m) g2)
         | TtsRaises m \<Rightarrow> (False, set_error a (''Error generating sentence audio: '' @ m) g2))"

definition generate_audio_for_flashcard ::
  "env \<Rightarrow> GeneratorConfig \<Rightarrow> addr \<Rightarrow> generator \<Rightarrow> bool \<times> generator" where
  "generate_audio_for_flashcard ev cfg a g =
     (if cancelled g then (False, g)
      else if truthy (error (records g a)) then (False, g)
      else
        (let (ok, g1) = generate_word_audio ev cfg a g
         in if \<not> ok then (False, g1)
            else if cancelled g1 then (False, g1)
            else generate_sentence_audio ev cfg a g1))"

section \<open>Publish Stage (core.py, lines 419-541)\<close>

definition fallback_media_dir :: "env \<Rightarrow> string" where
  "fallback_media_dir ev =
     (if platform_system ev = ''Windows'' then
        path_joins (home ev) [''AppData'', ''Roaming'', ''Anki2'', ''User 1'', ''collection.media'']
      else if platform_system ev = ''Darwin'' then
        path_joins (home ev)
          [''Library'', ''Application Support'', ''Anki2'', ''User 1'', ''collection.media'']
      else
        path_joins (home ev) [''.local'', ''share'', ''Anki2'', ''User 1'', ''collection.media''])"

definition get_anki_media_dir :: "env \<Rightarrow> generator \<Rightarrow> string \<times> generator" where
  "get_anki_media_dir ev g =
     (let g1 = emit ev GetMediaDirPath g
      in case anki_media_dir ev of
           Inr p \<Rightarrow> (p, g1)
         | Inl m \<Rightarrow> (fallback_media_dir ev, log_message ev (MsgNoMediaDirQuery m) g1))"

text \<open>Lines 455-466 and 469-480: one audio file of a record.\<close>

definition copy_audio_file ::
  "env \<Rightarrow> GeneratorConfig \<Rightarrow> string \<Rightarrow> string \<Rightarrow> generator \<Rightarrow> generator" where
  "copy_audio_file ev cfg media_dir f g =
     (let source = path_join (audio_dir cfg) f;
          dest = path_join media_dir f;
          source_alt = source @ ''.wav'';
          source1 = (if \<not> exists g source \<and> exists g source_alt then source_alt else source)
      in if exists g source1
         then log_message ev (MsgCopied (basename source1)) (copy2 ev source1 dest g)
         else g)"

text \<open>Lines 450-480: the body of the loop over the records.\<close>

definition copy_flashcard_audio ::
  "env \<Rightarrow> GeneratorConfig \<Rightarrow> string \<Rightarrow> addr \<Rightarrow> generator \<Rightarrow> generator" where
  "copy_flashcard_audio ev cfg media_dir a g =
     (if truthy (error (records g a)) \<or> cancelled g then g
      else
        (let g1 = (case audio_word_file (records g a) of
                     None \<Rightarrow> g
                   | Some f \<Rightarrow> if f = [] then g else copy_audio_file ev cfg media_dir f g)
         in case audio_sentence_file (records g1 a) of
              None \<Rightarrow> g1
            | Some f \<Rightarrow> if f = [] then g1 else copy_audio_file ev cfg media_dir f g1))"

definition copy_audio_to_anki ::
  "env \<Rightarrow> GeneratorConfig \<Rightarrow> addr list \<Rightarrow> generator \<Rightarrow> bool \<times> generator" where
  "copy_audio_to_anki ev cfg flashcards g =
     (let g1 = update_state ev COPYING_AUDIO MsgCopyingAudio g;
          (media_dir, g2) = get_anki_media_dir ev g1
      in if \<not> exists g2 media_dir
         then (False, log_message ev (MsgMediaDirNotFound media_dir) g2)
         else (True, fold (copy_flashcard_audio ev cfg media_dir) flashcards
                       (log_message ev (MsgMediaDir media_dir) g2)))"

definition sound_field :: "string option \<Rightarrow> string" where
  "sound_field f =
     (case f of None \<Rightarrow> [] | Some s \<Rightarrow> if s = [] then [] else ''[sound:'' @ s @ '']'')"

definition forward_note :: "GeneratorConfig \<Rightarrow> FlashcardData \<Rightarrow> anki_note" where
  "forward_note cfg fc =
     \<lparr>deckName = deck_name cfg, modelName = model_name cfg,
      note_fields =
        [(''Word'', ''<b>'' @ word fc @ ''</b>''),
         (''Danish Sentence'', example_sentence_da fc),
         (''Word Translation'', ''<b>'' @ translation fc @ ''</b>''),
         (''Sentence Translation'', example_sentence_en fc),
         (''Audio'', sound_field (audio_word_file fc)),
         (''Sentence Audio'', sound_field (audio_sentence_file fc))],
      allowDuplicate = False\<rparr>"

definition reverse_note :: "GeneratorConfig \<Rightarrow> FlashcardData \<Rightarrow> anki_note" where
  "reverse_note cfg fc =
     \<lparr>deckName = deck_name cfg, modelName = reverse_model_name cfg,
      note_fields =
        [(''English'', ''<b>'' @ translation fc @ ''</b>''),
         (''English Sentence'', example_sentence_en fc),
         (''Danish Word'', ''<b>'' @ word fc @ ''</b>''),
         (''Danish Sentence'', example_sentence_da fc),
         (''Audio'', sound_field (audio_word_file fc)),
         (''Sentence Audio'', sound_field (audio_sentence_file fc))],
      allowDuplicate = False\<rparr>"

definition add_note :: "env \<Rightarrow> anki_note \<Rightarrow> generator \<Rightarrow> string option \<times> generator" where
  "add_note ev n g =
     (anki_add_note ev (length (filter is_add_note (trace g))) n, emit ev (AddNote n) g)"

text \<open>Lines 519-541: the reverse card of a record whose forward card was added.\<close>

definition send_reverse_note :: "env \<Rightarrow> GeneratorConfig \<Rightarrow> addr \<Rightarrow> generator \<Rightarrow> generator" where
  "send_reverse_note ev cfg a g =
     (if generate_reverse_cards cfg then
        (let fc = records g a;
             (r, g1) = add_note ev (reverse_note cfg fc) g
         in case r of
              None \<Rightarrow> log_message ev (MsgAddedReverse (word fc)) g1
            | Some m \<Rightarrow> log_message ev (MsgReverseFailed (word fc) m) g1)
      else g)"

text \<open>Lines 490-541: the body of the loop over the records.\<close>

definition send_flashcard :: "env \<Rightarrow> GeneratorConfig \<Rightarrow> addr \<Rightarrow> generator \<Rightarrow> generator" where
  "send_flashcard ev cfg a g =
     (if truthy (error (records g a)) \<or> cancelled g then g
      else
        (let fc = records g a;
             (r, g1) = add_note ev (forward_note cfg fc) g
         in case r of
              Some m \<Rightarrow> set_error a m (log_message ev (MsgForwardFailed (word fc) m) g1)
            | None \<Rightarrow>
                send_reverse_note ev cfg a (log_message ev (MsgAddedForward (word fc)) g1)))"

definition send_to_anki :: "env \<Rightarrow> GeneratorConfig \<Rightarrow> addr list \<Rightarrow> generator \<Rightarrow> generator" where
  "send_to_anki ev cfg flashcards g =
     fold (send_flashcard ev cfg) flashcards (update_state ev SENDING_TO_ANKI MsgSending g)"

section \<open>Pipeline Orchestrator (core.py, lines 543-617)\<close>

definition add_failed_word :: "generator \<Rightarrow> generator" where
  "add_failed_word g = g\<lparr>stats := (stats g)\<lparr>failed_words := failed_words (stats g) + 1\<rparr>\<rparr>"

text \<open>Lines 562-575: one word of the content loop; \<open>i\<close> counts from 1.\<close>

definition content_step ::
  "env \<Rightarrow> GeneratorConfig \<Rightarrow> nat \<Rightarrow> nat \<Rightarrow> string \<Rightarrow> addr list \<Rightarrow> generator
     \<Rightarrow> addr list \<times> generator" where
  "content_step ev cfg n i w flashcards g =
     (let g1 = log_message ev (MsgProcessing i n w) g;
          (a, g2) = generate_content_for_word ev w g1;
          g3 = (if \<not> truthy (error (records g2 a))
                then save_checkpoint cfg (g2\<lparr>checkpoint := AList.update w a (checkpoint g2)\<rparr>)
                else add_failed_word g2)
      in (flashcards @ [a], g3\<lparr>stats := (stats g3)\<lparr>processed_words := i\<rparr>\<rparr>))"

fun content_loop ::
  "env \<Rightarrow> GeneratorConfig \<Rightarrow> nat \<Rightarrow> nat \<Rightarrow> string list \<Rightarrow> addr list \<Rightarrow> generator
     \<Rightarrow> addr list \<times> generator" where
  "content_loop ev cfg n i [] flashcards g = (flashcards, g)"
| "content_loop ev cfg n i (w # ws) flashcards g =
     (if cancelled g then (flashcards, g)
      else
        (let (flashcards1, g1) = content_step ev cfg n i w flashcards g
         in content_loop ev cfg n (Suc i) ws flashcards1 g1))"

text \<open>Lines 589-595: one record of the audio loop that is neither cancelled nor failed.\<close>

definition audio_step :: "env \<Rightarrow> GeneratorConfig \<Rightarrow> nat \<Rightarrow> nat \<Rightarrow> addr \<Rightarrow> generator \<Rightarrow> generator" where
  "audio_step ev cfg n i a g =
     (let remaining_audio = (n - i) * 2;
          g1 = g\<lparr>stats := (stats g)\<lparr>estimated_time_remaining :=
                                        Some (real remaining_audio * tts_delay cfg)\<rparr>\<rparr>;
          (success, g2) = generate_audio_for_flashcard ev cfg a g1
      in if \<not> success then add_failed_word g2 else g2)"

fun audio_loop ::
  "env \<Rightarrow> GeneratorConfig \<Rightarrow> nat \<Rightarrow> nat \<Rightarrow> addr list \<Rightarrow> generator \<Rightarrow> generator" where
  "audio_loop ev cfg n i [] g = g"
| "audio_loop ev cfg n i (a # as) g =
     (if cancelled g then g
      else if truthy (error (records g a)) then audio_loop ev cfg n (Suc i) as g
      else audio_loop ev cfg n (Suc i) as (audio_step ev cfg n i a g))"

text \<open>Lines 604-613: the final report and the removal of the checkpoint.\<close>

definition complete_run ::
  "env \<Rightarrow> GeneratorConfig \<Rightarrow> addr list \<Rightarrow> generator \<Rightarrow> generator" where
  "complete_run ev cfg flashcards g =
     (let successful = length (filter (\<lambda>a. \<not> truthy (error (records g a))) flashcards);
          g1 = update_state ev COMPLETED (MsgCompleted successful (length flashcards)) g
      in if exists g1 (checkpoint_file cfg) then remove_file (checkpoint_file cfg) g1 else g1)"

text \<open>Lines 600-613: publication, then the completion.\<close>

definition publish_and_complete ::
  "env \<Rightarrow> GeneratorConfig \<Rightarrow> addr list \<Rightarrow> generator \<Rightarrow> generator" where
  "publish_and_complete ev cfg flashcards g =
     (let (copied, g1) = copy_audio_to_anki ev cfg flashcards g;
          g2 = (if copied then send_to_anki ev cfg flashcards g1 else g1)
      in complete_run ev cfg flashcards g2)"

text \<open>Lines 557-613: the stages after the words are read.\<close>

definition run_stages ::
  "env \<Rightarrow> GeneratorConfig \<Rightarrow> string list \<Rightarrow> generator \<Rightarrow> generator" where
  "run_stages ev cfg words g =
     (let (flashcards, g1) = content_loop ev cfg (length words) 1 words [] g
      in if cancelled g1 then g1
         else
           (let g2 = (if \<not> test_mode cfg
                      then audio_loop ev cfg (length flashcards) 1 flashcards g1 else g1)
            in if cancelled g2 then g2
               else publish_and_complete ev cfg flashcards g2))"

fun exn_text :: "exn \<Rightarrow> string" where
  "exn_text (FileNotFoundError m) = m"
| "exn_text (FileExistsError m) = m"
| "exn_text (ValueError m) = m"
| "exn_text (OtherException m) = m"

text \<open>
  \<open>run\<close> returns the exception it raises, if any, and the generator as it leaves it.
\<close>

definition run :: "env \<Rightarrow> GeneratorConfig \<Rightarrow> generator \<Rightarrow> exn option \<times> generator" where
  "run ev cfg g =
     (let g0 = g\<lparr>stats := (stats g)\<lparr>start_time := Some (now ev)\<rparr>\<rparr>;
          (r, g1) = read_words ev cfg g0
      in case r of
           Inl e \<Rightarrow> (Some e, update_state ev FAILED (MsgRunError (exn_text e)) g1)
         | Inr words \<Rightarrow>
            (let g2 = g1\<lparr>stats := (stats g1)\<lparr>total_words := length words\<rparr>\<rparr>
             in if words = []
                then (Some (ValueError ''No words to process''),
                      update_state ev FAILED (MsgRunError ''No words to process'') g2)
                else (None, run_stages ev cfg words g2)))"

section \<open>Concrete inputs\<close>

text \<open>
  An environment in which every backend succeeds and nobody cancels, the default
  configuration with reverse cards switched on, and a flashcard.
\<close>

definition example_env :: env where
  "example_env =
     \<lparr>g_generate = (\<lambda>k w. GenObject
          [(''word'', w), (''translation'', ''a dog''),
           (''example_sentence_da'', ''Min <b>hund</b> sover.''),
           (''example_sentence_en'', ''My <b>dog</b> sleeps.'')]),
      tts_generate = (\<lambda>k text filename. TtsDone Plain),
      anki_media_dir = Inr ''/media'',
      anki_add_note = (\<lambda>k n. None),
      md5_hex = (\<lambda>text. ''md5-'' @ text),
      cancel_req = (\<lambda>n. False),
      now = 0,
      platform_system = ''Linux'',
      home = ''/home/user''\<rparr>"

definition example_config :: GeneratorConfig where
  "example_config =
     \<lparr>words_file = ''./words.txt'', deck_name = ''Danish vocab'', model_name = ''Danish'',
      reverse_model_name = ''Danish Reverse'', audio_dir = ''./audio'',
      audio_cache_dir = ''./audio_cache'', checkpoint_file = ''./checkpoint.json'',
      tts_delay = 6.5, skip_existing_audio = False, test_mode = False,
      generate_reverse_cards = True\<rparr>"

definition example_card :: FlashcardData where
  "example_card =
     \<lparr>word = ''hund'', translation = ''a dog'',
      example_sentence_da = ''Min <b>hund</b> sover.'',
      example_sentence_en = ''My <b>dog</b> sleeps.'',
      audio_word_file = None, audio_sentence_file = None, error = None\<rparr>"

text \<open>A generator that has loaded a checkpoint with the word \<open>hund\<close>.\<close>

definition resumed_generator :: generator where
  "resumed_generator =
     \<lparr>stats = new_stats, state = IDLE, cancelled = False, checkpoint = [(''hund'', 0)],
      audio_cache_metadata = [], records = (\<lambda>a. no_flashcard)(0 := example_card),
      next_addr = 1,
      fs = [''./audio'' \<mapsto> Directory, ''./audio_cache'' \<mapsto> Directory],
      trace = []\<rparr>"

text \<open>The backend calls and sleeps of a generator's trace, in order.\<close>

fun is_sleep :: "event \<Rightarrow> bool" where
  "is_sleep (Sleep d) = True"
| "is_sleep e = False"

definition calls_and_sleeps :: "generator \<Rightarrow> event list" where
  "calls_and_sleeps g = filter (\<lambda>e. is_tts_call e \<or> is_sleep e) (effects (trace g))"

text \<open>Flashcard stores that refuse the first, and the second, note.\<close>

definition forward_failing_env :: env where
  "forward_failing_env =
     example_env\<lparr>anki_add_note := (\<lambda>k n. if k = 0 then Some ''cannot create note'' else None)\<rparr>"

definition reverse_failing_env :: env where
  "reverse_failing_env =
     example_env\<lparr>anki_add_note := (\<lambda>k n. if k = 1 then Some ''cannot create note'' else None)\<rparr>"

text \<open>
  Speech backends that are rate limited on the first call, on the first two calls, and
  that fail otherwise on the first call.
\<close>

definition rate_limited_once_env :: env where
  "rate_limited_once_env =
     example_env\<lparr>tts_generate :=
       (\<lambda>k text filename. if k = 0 then TtsClientError 429 ''429 RESOURCE_EXHAUSTED''
                           else TtsDone Plain)\<rparr>"

definition rate_limited_twice_env :: env where
  "rate_limited_twice_env =
     example_env\<lparr>tts_generate :=
       (\<lambda>k text filename. if k < 2 then TtsClientError 429 ''429 RESOURCE_EXHAUSTED''
                           else TtsDone Plain)\<rparr>"

definition tts_broken_env :: env where
  "tts_broken_env =
     example_env\<lparr>tts_generate :=
       (\<lambda>k text filename. if k = 0 then TtsRaises ''connection reset'' else TtsDone Plain)\<rparr>"

text \<open>A generator whose cache metadata names an artifact that is not on disk.\<close>

definition stale_cache_generator :: generator where
  "stale_cache_generator =
     resumed_generator\<lparr>audio_cache_metadata := [(''md5-hund'', ''md5-hund.wav'')]\<rparr>"

text \<open>
  The messages that the generator itself passed to the callback, in order; the
  notification \<open>MsgCancelling\<close> comes from \<open>cancel\<close>, which the other thread runs.
\<close>

fun event_message :: "event \<Rightarrow> message list" where
  "event_message (Callback s st m) = [m]"
| "event_message e = []"

definition logged :: "generator \<Rightarrow> message list" where
  "logged g = filter (\<lambda>m. m \<noteq> MsgCancelling) (concat (map event_message (trace g)))"


text \<open>A generator with two flashcards for the same word.\<close>

definition two_cards_generator :: generator where
  "two_cards_generator =
     resumed_generator\<lparr>records := (records resumed_generator)(1 := example_card),
                        next_addr := 2\<rparr>"

text \<open>
  A disk whose checkpoint file holds the word \<open>hund\<close> with the empty string as error,
  and the generator constructed over it.
\<close>

definition blank_error_card :: FlashcardData where
  "blank_error_card = example_card\<lparr>error := Some []\<rparr>"

definition blank_error_disk :: "string \<Rightarrow> file_content option" where
  "blank_error_disk =
     [''./words.txt'' \<mapsto> WordList [''hund''],
      ''./checkpoint.json'' \<mapsto> CheckpointJson [(''hund'', blank_error_card)]]"

definition blank_error_generator :: generator where
  "blank_error_generator = projr (init example_env example_config blank_error_disk)"

text \<open>A generator whose flashcard has failed.\<close>

definition failed_card_generator :: generator where
  "failed_card_generator =
     resumed_generator\<lparr>records :=
       (records resumed_generator)(0 := example_card\<lparr>error := Some ''TTS error: quota''\<rparr>)\<rparr>"

text \<open>
  The states to which the pipeline itself moved by \<open>_update_state\<close>, in order: the
  callbacks whose message is one that \<open>_update_state\<close> is called with (the notification
  of \<open>cancel\<close>, which the other thread runs, apart).
\<close>

fun announces :: "message \<Rightarrow> bool" where
  "announces MsgReadingWords = True"
| "announces (MsgGeneratingContent w) = True"
| "announces (MsgGeneratingWordAudio w) = True"
| "announces (MsgGeneratingSentenceAudio w) = True"
| "announces MsgCopyingAudio = True"
| "announces MsgSending = True"
| "announces (MsgCompleted k n) = True"
| "announces (MsgRunError e) = True"
| "announces m = False"

fun transition :: "event \<Rightarrow> ProcessingState list" where
  "transition (Callback s st m) = (if announces m then [s] else [])"
| "transition e = []"

definition transitions :: "generator \<Rightarrow> ProcessingState list" where
  "transitions g = concat (map transition (trace g))"

text \<open>
  The estimates of the remaining time that the callback was given, other than \<open>v\<close>.
\<close>

fun event_estimate :: "event \<Rightarrow> real option list" where
  "event_estimate (Callback s st m) = [estimated_time_remaining st]"
| "event_estimate e = []"

definition other_estimates :: "real option \<Rightarrow> generator \<Rightarrow> real option list" where
  "other_estimates v g = filter (\<lambda>x. x \<noteq> v) (concat (map event_estimate (trace g)))"

text \<open>
  The configuration in test mode, a disk that holds the words file with one word and
  nothing else, the generator constructed over it (no directory \<open>/media\<close>), and the
  same generator with that directory.
\<close>

definition test_config :: GeneratorConfig where
  "test_config = example_config\<lparr>test_mode := True\<rparr>"

definition one_word_disk :: "string \<Rightarrow> file_content option" where
  "one_word_disk = [''./words.txt'' \<mapsto> WordList [''hund'']]"

definition one_word_generator :: generator where
  "one_word_generator =
     \<lparr>stats = new_stats, state = IDLE, cancelled = False, checkpoint = [],
      audio_cache_metadata = [], records = (\<lambda>a. no_flashcard), next_addr = 0,
      fs = one_word_disk(''./audio'' \<mapsto> Directory, ''./audio_cache'' \<mapsto> Directory),
      trace = []\<rparr>"

definition media_generator :: generator where
  "media_generator =
     one_word_generator\<lparr>fs := (fs one_word_generator)(''/media'' \<mapsto> Directory)\<rparr>"

section \<open>Basic facts\<close>

text \<open>What each operation leaves alone, and what it adds to the trace.\<close>

lemma emit_fields [simp]:
  "records (emit ev e g) = records g"
  "stats (emit ev e g) = stats g"
  "checkpoint (emit ev e g) = checkpoint g"
  "fs (emit ev e g) = fs g"
  "audio_cache_metadata (emit ev e g) = audio_cache_metadata g"
  "next_addr (emit ev e g) = next_addr g"
  by (simp_all add: emit_def cancel_def append_event_def Let_def)

lemma exists_emit [simp]: "exists (emit ev e g) p = exists g p"
  by (simp add: exists_def)

lemma effects_emit [simp]:
  "effects (trace (emit ev e g)) = effects (trace g) @ (if is_callback e then [] else [e])"
  by (simp add: emit_def cancel_def append_event_def Let_def effects_def)

lemma generate_calls_emit [simp]:
  "filter is_generate_call (trace (emit ev e g)) =
     filter is_generate_call (trace g) @ (if is_generate_call e then [e] else [])"
  by (simp add: emit_def cancel_def append_event_def Let_def)

lemma log_message_fields [simp]:
  "records (log_message ev m g) = records g"
  "stats (log_message ev m g) = stats g"
  "checkpoint (log_message ev m g) = checkpoint g"
  "fs (log_message ev m g) = fs g"
  "audio_cache_metadata (log_message ev m g) = audio_cache_metadata g"
  "next_addr (log_message ev m g) = next_addr g"
  "exists (log_message ev m g) p = exists g p"
  "effects (trace (log_message ev m g)) = effects (trace g)"
  "filter is_generate_call (trace (log_message ev m g)) = filter is_generate_call (trace g)"
  by (simp_all add: log_message_def)

lemma update_state_fields [simp]:
  "records (update_state ev s m g) = records g"
  "stats (update_state ev s m g) = stats g"
  "checkpoint (update_state ev s m g) = checkpoint g"
  "fs (update_state ev s m g) = fs g"
  "audio_cache_metadata (update_state ev s m g) = audio_cache_metadata g"
  "next_addr (update_state ev s m g) = next_addr g"
  "exists (update_state ev s m g) p = exists g p"
  "effects (trace (update_state ev s m g)) = effects (trace g)"
  by (simp_all add: update_state_def Let_def exists_def)

lemma sleep_fields [simp]:
  "records (snd (sleep ev d g)) = records g"
  "stats (snd (sleep ev d g)) = stats g"
  "checkpoint (snd (sleep ev d g)) = checkpoint g"
  "fs (snd (sleep ev d g)) = fs g"
  "audio_cache_metadata (snd (sleep ev d g)) = audio_cache_metadata g"
  "next_addr (snd (sleep ev d g)) = next_addr g"
  "exists (snd (sleep ev d g)) p = exists g p"
  "effects (trace (snd (sleep ev d g))) = effects (trace g) @ (if d < 0 then [] else [Sleep d])"
  "fst (sleep ev d g) = (if d < 0 then Some ''sleep length must be non-negative'' else None)"
  by (simp_all add: sleep_def)

lemma write_file_fields [simp]:
  "records (write_file p c g) = records g"
  "stats (write_file p c g) = stats g"
  "checkpoint (write_file p c g) = checkpoint g"
  "audio_cache_metadata (write_file p c g) = audio_cache_metadata g"
  "next_addr (write_file p c g) = next_addr g"
  "trace (write_file p c g) = trace g"
  "cancelled (write_file p c g) = cancelled g"
  "state (write_file p c g) = state g"
  "fs (write_file p c g) = (fs g)(p \<mapsto> c)"
  by (simp_all add: write_file_def)

lemma copy2_fields [simp]:
  "records (copy2 ev src dst g) = records g"
  "stats (copy2 ev src dst g) = stats g"
  "checkpoint (copy2 ev src dst g) = checkpoint g"
  "audio_cache_metadata (copy2 ev src dst g) = audio_cache_metadata g"
  "next_addr (copy2 ev src dst g) = next_addr g"
  "fs (copy2 ev src dst g) = (fs g)(dst := fs g src)"
  "effects (trace (copy2 ev src dst g)) = effects (trace g) @ [CopyFile src dst]"
  by (simp_all add: copy2_def)

lemma save_checkpoint_fields [simp]:
  "records (save_checkpoint cfg g) = records g"
  "stats (save_checkpoint cfg g) = stats g"
  "checkpoint (save_checkpoint cfg g) = checkpoint g"
  "trace (save_checkpoint cfg g) = trace g"
  "cancelled (save_checkpoint cfg g) = cancelled g"
  "state (save_checkpoint cfg g) = state g"
  by (simp_all add: save_checkpoint_def)

lemma set_error_fields [simp]:
  "stats (set_error a m g) = stats g"
  "checkpoint (set_error a m g) = checkpoint g"
  "trace (set_error a m g) = trace g"
  "fs (set_error a m g) = fs g"
  "cancelled (set_error a m g) = cancelled g"
  "state (set_error a m g) = state g"
  "audio_cache_metadata (set_error a m g) = audio_cache_metadata g"
  "records (set_error a m g) = (records g)(a := (records g a)\<lparr>error := Some m\<rparr>)"
  by (simp_all add: set_error_def)

lemma set_audio_word_file_fields [simp]:
  "stats (set_audio_word_file a f g) = stats g"
  "checkpoint (set_audio_word_file a f g) = checkpoint g"
  "trace (set_audio_word_file a f g) = trace g"
  "fs (set_audio_word_file a f g) = fs g"
  "exists (set_audio_word_file a f g) p = exists g p"
  "cancelled (set_audio_word_file a f g) = cancelled g"
  "state (set_audio_word_file a f g) = state g"
  "audio_cache_metadata (set_audio_word_file a f g) = audio_cache_metadata g"
  "records (set_audio_word_file a f g) = (records g)(a := (records g a)\<lparr>audio_word_file := Some f\<rparr>)"
  by (simp_all add: set_audio_word_file_def exists_def)

lemma set_audio_sentence_file_fields [simp]:
  "stats (set_audio_sentence_file a f g) = stats g"
  "checkpoint (set_audio_sentence_file a f g) = checkpoint g"
  "trace (set_audio_sentence_file a f g) = trace g"
  "fs (set_audio_sentence_file a f g) = fs g"
  "cancelled (set_audio_sentence_file a f g) = cancelled g"
  "state (set_audio_sentence_file a f g) = state g"
  "audio_cache_metadata (set_audio_sentence_file a f g) = audio_cache_metadata g"
  "records (set_audio_sentence_file a f g) =
     (records g)(a := (records g a)\<lparr>audio_sentence_file := Some f\<rparr>)"
  by (simp_all add: set_audio_sentence_file_def)

lemma store_in_cache_fields [simp]:
  "records (store_in_cache ev cfg src k f g) = records g"
  "stats (store_in_cache ev cfg src k f g) = stats g"
  "checkpoint (store_in_cache ev cfg src k f g) = checkpoint g"
  "effects (trace (store_in_cache ev cfg src k f g)) =
     effects (trace g) @ [CopyFile src (path_join (audio_cache_dir cfg) f)]"
  by (simp_all add: store_in_cache_def save_audio_cache_metadata_def Let_def)

lemma cache_audio_fields [simp]:
  "records (snd (cache_audio ev cfg text f g)) = records g"
  "stats (snd (cache_audio ev cfg text f g)) = stats g"
  "checkpoint (snd (cache_audio ev cfg text f g)) = checkpoint g"
  by (simp_all add: cache_audio_def Let_def)

lemma tts_store_fields [simp]:
  "records (tts_store cfg text f art g) = records g"
  "stats (tts_store cfg text f art g) = stats g"
  "checkpoint (tts_store cfg text f art g) = checkpoint g"
  "audio_cache_metadata (tts_store cfg text f art g) = audio_cache_metadata g"
  "trace (tts_store cfg text f art g) = trace g"
  "cancelled (tts_store cfg text f art g) = cancelled g"
  "state (tts_store cfg text f art g) = state g"
  by (simp_all add: tts_store_def split: tts_artifact.splits)

lemma tts_call_fields [simp]:
  "records (snd (tts_call ev cfg text f g)) = records g"
  "stats (snd (tts_call ev cfg text f g)) = stats g"
  "checkpoint (snd (tts_call ev cfg text f g)) = checkpoint g"
  "audio_cache_metadata (snd (tts_call ev cfg text f g)) = audio_cache_metadata g"
  "effects (trace (snd (tts_call ev cfg text f g))) = effects (trace g) @ [TtsCall text f]"
  "fst (tts_call ev cfg text f g) = tts_generate ev (length (filter is_tts_call (trace g))) text f"
  by (simp_all add: tts_call_def Let_def split: tts_result.splits)

lemma sleep_after_audio_fields [simp]:
  "stats (snd (sleep_after_audio ev cfg a p g)) = stats g"
  "checkpoint (snd (sleep_after_audio ev cfg a p g)) = checkpoint g"
  "fs (snd (sleep_after_audio ev cfg a p g)) = fs g"
  "audio_cache_metadata (snd (sleep_after_audio ev cfg a p g)) = audio_cache_metadata g"
  "exists (snd (sleep_after_audio ev cfg a p g)) q = exists g q"
  "fst (sleep_after_audio ev cfg a p g) = (0 \<le> tts_delay cfg)"
  "records (snd (sleep_after_audio ev cfg a p g)) =
     (if tts_delay cfg < 0
      then (records g)(a := (records g a)\<lparr>error := Some (p @ ''sleep length must be non-negative'')\<rparr>)
      else records g)"
  "effects (trace (snd (sleep_after_audio ev cfg a p g))) =
     effects (trace g) @ (if tts_delay cfg < 0 then [] else [Sleep (tts_delay cfg)])"
  by (auto simp add: sleep_after_audio_def sleep_def exists_def)

lemma stats_retry_word_audio [simp]:
  "stats (snd (retry_word_audio ev cfg a g)) = stats g"
  by (simp add: retry_word_audio_def Let_def case_prod_beta split: tts_result.splits)

lemma stats_synthesize_word_audio [simp]:
  "stats (snd (synthesize_word_audio ev cfg a g)) = stats g"
  by (simp add: synthesize_word_audio_def Let_def case_prod_beta split: tts_result.splits)

lemma stats_generate_word_audio [simp]:
  "stats (snd (generate_word_audio ev cfg a g)) = stats g"
  by (simp add: generate_word_audio_def Let_def split: option.splits)

lemma stats_retry_sentence_audio [simp]:
  "stats (snd (retry_sentence_audio ev cfg a g)) = stats g"
  by (simp add: retry_sentence_audio_def Let_def case_prod_beta split: tts_result.splits)

lemma stats_generate_sentence_audio [simp]:
  "stats (snd (generate_sentence_audio ev cfg a g)) = stats g"
  by (simp add: generate_sentence_audio_def Let_def case_prod_beta split: tts_result.splits)

lemma stats_generate_audio_for_flashcard [simp]:
  "stats (snd (generate_audio_for_flashcard ev cfg a g)) = stats g"
  by (simp add: generate_audio_for_flashcard_def Let_def case_prod_beta)

section \<open>Content Stage: a checkpointed word\<close>

text \<open>
  C3. For a word found in the checkpoint, \<open>generate_content_for_word\<close> returns the
  checkpointed record, changes no record, calls the content backend not at all, and
  leaves the checkpoint and the statistics (so the failure count) as they are. When the
  record carries no error, the whole step of the content loop (lines 562-575) also leaves
  the checkpoint, the records and the failure count unchanged and calls no backend.
\<close>

theorem checkpointed_word_is_skipped:
  assumes "map_of (checkpoint g) w = Some a"
  shows "fst (generate_content_for_word ev w g) = a
       \<and> records (snd (generate_content_for_word ev w g)) = records g
       \<and> filter is_generate_call (trace (snd (generate_content_for_word ev w g)))
           = filter is_generate_call (trace g)
       \<and> checkpoint (snd (generate_content_for_word ev w g)) = checkpoint g
       \<and> stats (snd (generate_content_for_word ev w g)) = stats g
       \<and> (\<not> truthy (error (records g a)) \<longrightarrow>
            checkpoint (snd (content_step ev cfg n i w fcs g)) = checkpoint g
          \<and> records (snd (content_step ev cfg n i w fcs g)) = records g
          \<and> failed_words (stats (snd (content_step ev cfg n i w fcs g))) = failed_words (stats g)
          \<and> filter is_generate_call (trace (snd (content_step ev cfg n i w fcs g)))
              = filter is_generate_call (trace g))"
  using assms
  by (simp add: generate_content_for_word_def content_step_def Let_def update_triv)

theorem checkpointed_word_is_skipped_witness:
  "map_of (checkpoint resumed_generator) ''hund'' = Some 0
   \<and> \<not> truthy (error (records resumed_generator 0))
   \<and> fst (generate_content_for_word example_env ''hund'' resumed_generator) = 0
   \<and> checkpoint (snd (content_step example_env example_config 2 1 ''hund'' [] resumed_generator))
       = [(''hund'', 0)]
   \<and> failed_words
        (stats (snd (content_step example_env example_config 2 1 ''hund'' [] resumed_generator)))
       = 0
   \<and> filter is_generate_call
        (trace (snd (content_step example_env example_config 2 1 ''hund'' [] resumed_generator)))
       = []"
  using checkpointed_word_is_skipped
          [of resumed_generator "''hund''" 0 example_env example_config 2 1 "[]"]
  by (simp add: resumed_generator_def example_card_def truthy_def new_stats_def)

lemma add_notes_via_effects:
  "filter is_add_note t = filter is_add_note (effects t)"
  by (induction t) (auto simp: effects_def elim: is_add_note.elims)

lemma tts_calls_via_effects:
  "filter is_tts_call t = filter is_tts_call (effects t)"
  by (induction t) (auto simp: effects_def elim: is_tts_call.elims)

lemma add_note_fields [simp]:
  "records (snd (add_note ev n g)) = records g"
  "stats (snd (add_note ev n g)) = stats g"
  "checkpoint (snd (add_note ev n g)) = checkpoint g"
  "fs (snd (add_note ev n g)) = fs g"
  "effects (trace (snd (add_note ev n g))) = effects (trace g) @ [AddNote n]"
  "fst (add_note ev n g) = anki_add_note ev (length (filter is_add_note (trace g))) n"
  by (simp_all add: add_note_def)

lemma logged_emit [simp]:
  "logged (emit ev e g) = logged g @ filter (\<lambda>m. m \<noteq> MsgCancelling) (event_message e)"
  by (simp add: logged_def emit_def cancel_def append_event_def Let_def)

lemma logged_steps [simp]:
  "logged (log_message ev m g) = logged g @ (if m = MsgCancelling then [] else [m])"
  "logged (update_state ev s m g) = logged g @ (if m = MsgCancelling then [] else [m])"
  "logged (snd (add_note ev n g)) = logged g"
  "logged (set_error a x g) = logged g"
  by (simp_all add: log_message_def update_state_def add_note_def Let_def)
     (simp_all add: logged_def)

section \<open>Publish Stage: failures of note submission\<close>

text \<open>
  C8. For a record without error, no cancellation and reverse cards enabled: if the
  submission of the forward note fails, the record's error is set to the failure, the
  forward note is the only thing submitted for the record, and the failure is reported to
  the callback; if the forward note succeeds and the reverse note fails, both notes were
  submitted, the failure of the reverse note is reported to the callback after the
  success of the forward note, and no record changes (so the error field stays as it
  was).
\<close>

theorem forward_failure_skips_reverse:
  assumes "\<not> truthy (error (records g a))" and "\<not> cancelled g" and "generate_reverse_cards cfg"
  shows "(anki_add_note ev (length (filter is_add_note (trace g))) (forward_note cfg (records g a))
            = Some m \<longrightarrow>
            error (records (send_flashcard ev cfg a g) a) = Some m
          \<and> effects (trace (send_flashcard ev cfg a g))
              = effects (trace g) @ [AddNote (forward_note cfg (records g a))]
          \<and> logged (send_flashcard ev cfg a g)
              = logged g @ [MsgForwardFailed (word (records g a)) m])
       \<and> (anki_add_note ev (length (filter is_add_note (trace g))) (forward_note cfg (records g a))
            = None
          \<and> anki_add_note ev (Suc (length (filter is_add_note (trace g))))
              (reverse_note cfg (records g a)) = Some m \<longrightarrow>
            records (send_flashcard ev cfg a g) = records g
          \<and> effects (trace (send_flashcard ev cfg a g))
              = effects (trace g) @ [AddNote (forward_note cfg (records g a)),
                                      AddNote (reverse_note cfg (records g a))]
          \<and> logged (send_flashcard ev cfg a g)
              = logged g @ [MsgAddedForward (word (records g a)),
                            MsgReverseFailed (word (records g a)) m])"
  using assms
  by (simp add: send_flashcard_def send_reverse_note_def case_prod_beta Let_def
      add_notes_via_effects [of "trace g"] add_notes_via_effects [of "trace (log_message _ _ _)"])

lemma resumed_generator_logged: "logged resumed_generator = []"
  by (simp add: logged_def resumed_generator_def)

theorem forward_failure_skips_reverse_witness:
  "\<not> truthy (error (records resumed_generator 0)) \<and> \<not> cancelled resumed_generator
   \<and> generate_reverse_cards example_config
   \<and> error (records (send_flashcard forward_failing_env example_config 0 resumed_generator) 0)
       = Some ''cannot create note''
   \<and> effects (trace (send_flashcard forward_failing_env example_config 0 resumed_generator))
       = [AddNote (forward_note example_config example_card)]
   \<and> logged (send_flashcard forward_failing_env example_config 0 resumed_generator)
       = [MsgForwardFailed ''hund'' ''cannot create note'']
   \<and> records (send_flashcard reverse_failing_env example_config 0 resumed_generator)
       = records resumed_generator
   \<and> effects (trace (send_flashcard reverse_failing_env example_config 0 resumed_generator))
       = [AddNote (forward_note example_config example_card),
          AddNote (reverse_note example_config example_card)]
   \<and> logged (send_flashcard reverse_failing_env example_config 0 resumed_generator)
       = [MsgAddedForward ''hund'', MsgReverseFailed ''hund'' ''cannot create note'']"
proof -
  have h: "\<not> truthy (error (records resumed_generator 0))" "\<not> cancelled resumed_generator"
    "generate_reverse_cards example_config"
    by (simp_all add: resumed_generator_def example_card_def truthy_def example_config_def)
  have r: "records resumed_generator 0 = example_card" "word example_card = ''hund''"
    "effects (trace resumed_generator) = []"
    "length (filter is_add_note (trace resumed_generator)) = 0"
    "\<not> truthy (error example_card)"
    by (simp_all add: resumed_generator_def example_card_def effects_def truthy_def)
  have f: "anki_add_note forward_failing_env 0 n = Some ''cannot create note''"
    "anki_add_note reverse_failing_env 0 n = None"
    "anki_add_note reverse_failing_env (Suc 0) n = Some ''cannot create note''" for n
    by (simp_all add: forward_failing_env_def reverse_failing_env_def example_env_def)
  show ?thesis
    using forward_failure_skips_reverse [OF h, of forward_failing_env "''cannot create note''"]
      forward_failure_skips_reverse [OF h, of reverse_failing_env "''cannot create note''"]
    by (simp add: h r f resumed_generator_logged)
qed

lemma calls_and_sleeps_steps [simp]:
  "calls_and_sleeps (log_message ev m g) = calls_and_sleeps g"
  "calls_and_sleeps (update_state ev s m g) = calls_and_sleeps g"
  "calls_and_sleeps (snd (sleep ev d g)) = calls_and_sleeps g @ (if d < 0 then [] else [Sleep d])"
  "calls_and_sleeps (snd (sleep_after_audio ev cfg a p g))
     = calls_and_sleeps g @ (if tts_delay cfg < 0 then [] else [Sleep (tts_delay cfg)])"
  "calls_and_sleeps (snd (tts_call ev cfg text f g)) = calls_and_sleeps g @ [TtsCall text f]"
  "calls_and_sleeps (copy2 ev src dst g) = calls_and_sleeps g"
  "calls_and_sleeps (set_error a x g) = calls_and_sleeps g"
  "calls_and_sleeps (set_audio_word_file a x g) = calls_and_sleeps g"
  "calls_and_sleeps (set_audio_sentence_file a x g) = calls_and_sleeps g"
  "calls_and_sleeps (snd (cache_audio ev cfg text f g)) = calls_and_sleeps g"
  by (simp_all add: calls_and_sleeps_def cache_audio_def Let_def)

lemma tts_calls_cache_audio [simp]:
  "filter is_tts_call (effects (trace (snd (cache_audio ev cfg text f g))))
     = filter is_tts_call (effects (trace g))"
  by (simp add: cache_audio_def Let_def)







lemma normalize_filename_hund: "normalize_filename ''hund'' = ''hund''"
  by (simp add: normalize_filename_def is_filename_char_def is_space_def)



section \<open>Audio Stage: the retry after a rate limit\<close>



lemma cancelled_emit:
  "cancelled (emit ev e g) = (cancelled g \<or> cancel_req ev (Suc (length (trace g))))"
  by (simp add: emit_def cancel_def append_event_def Let_def)

lemma cancelled_quiet_steps:
  assumes "\<forall>n. \<not> cancel_req ev n"
  shows "cancelled (emit ev e g) = cancelled g"
    "cancelled (log_message ev m g) = cancelled g"
    "cancelled (update_state ev s m g) = cancelled g"
    "cancelled (snd (sleep ev d g)) = cancelled g"
    "cancelled (snd (sleep_after_audio ev cfg a p g)) = cancelled g"
    "cancelled (copy2 ev src dst g) = cancelled g"
    "cancelled (snd (tts_call ev cfg text f g)) = cancelled g"
    "cancelled (snd (cache_audio ev cfg text f g)) = cancelled g"
    "cancelled (snd (add_note ev n g)) = cancelled g"
  using assms
  by (simp_all add: cancelled_emit log_message_def update_state_def sleep_def
      sleep_after_audio_def copy2_def tts_call_def cache_audio_def store_in_cache_def
      save_audio_cache_metadata_def add_note_def Let_def split: tts_result.splits)

lemma cancelled_quiet_word_audio:
  assumes "\<forall>n. \<not> cancel_req ev n"
  shows "cancelled (snd (generate_word_audio ev cfg a g)) = cancelled g"
  using assms
  by (simp add: generate_word_audio_def synthesize_word_audio_def retry_word_audio_def
      Let_def case_prod_beta cancelled_quiet_steps split: option.splits tts_result.splits)

lemma example_envs_quiet:
  "\<forall>n. \<not> cancel_req example_env n"
  "\<forall>n. \<not> cancel_req rate_limited_once_env n"
  "\<forall>n. \<not> cancel_req rate_limited_twice_env n"
  "\<forall>n. \<not> cancel_req tts_broken_env n"
  "\<forall>n. \<not> cancel_req forward_failing_env n"
  "\<forall>n. \<not> cancel_req reverse_failing_env n"
  by (simp_all add: example_env_def rate_limited_once_env_def rate_limited_twice_env_def
      tts_broken_env_def forward_failing_env_def reverse_failing_env_def)


lemma effects_cache_audio [simp]:
  "effects (trace (snd (cache_audio ev cfg text f g))) =
     effects (trace g) @
       (if exists g (path_join (audio_dir cfg) f)
        then [CopyFile (path_join (audio_dir cfg) f)
                (path_join (audio_cache_dir cfg) (get_audio_cache_key ev text @ ''.wav''))]
        else if exists g (path_join (audio_dir cfg) f @ ''.wav'')
        then [CopyFile (path_join (audio_dir cfg) f @ ''.wav'')
                (path_join (audio_cache_dir cfg) (get_audio_cache_key ev text @ ''.wav''))]
        else [])"
  by (simp add: cache_audio_def Let_def)

lemma effects_retry_word_audio:
  "\<exists>t. effects (trace (snd (retry_word_audio ev cfg a g))) = effects (trace g) @ t"
  by (simp add: retry_word_audio_def Let_def case_prod_beta split: tts_result.splits)

lemma effects_synthesize_word_audio:
  "\<exists>t. effects (trace (snd (synthesize_word_audio ev cfg a g)))
         = effects (trace g)
           @ TtsCall (word (records g a)) (normalize_filename (word (records g a))) # t"
proof -
  define g4 where "g4 = snd (sleep ev 20 (log_message ev MsgRateLimit
      (snd (tts_call ev cfg (word (records g a)) (normalize_filename (word (records g a)))
        (update_state ev GENERATING_AUDIO (MsgGeneratingWordAudio (word (records g a))) g)))))"
  obtain t where
    "effects (trace (snd (retry_word_audio ev cfg a g4))) = effects (trace g4) @ t"
    using effects_retry_word_audio by blast
  then show ?thesis
    by (simp add: synthesize_word_audio_def Let_def case_prod_beta g4_def
        split: tts_result.splits)
qed

lemma effects_retry_sentence_audio:
  "\<exists>t. effects (trace (snd (retry_sentence_audio ev cfg a g))) = effects (trace g) @ t"
  by (simp add: retry_sentence_audio_def Let_def case_prod_beta split: tts_result.splits)

lemma effects_generate_sentence_audio:
  "\<exists>t. effects (trace (snd (generate_sentence_audio ev cfg a g))) = effects (trace g) @ t"
proof -
  define g4 where "g4 = snd (sleep ev 20 (log_message ev MsgRateLimit
      (snd (tts_call ev cfg (example_sentence_da (records g a))
        (normalize_filename (word (records g a)) @ ''_sentence'')
        (update_state ev GENERATING_AUDIO (MsgGeneratingSentenceAudio (word (records g a))) g)))))"
  obtain t where
    "effects (trace (snd (retry_sentence_audio ev cfg a g4))) = effects (trace g4) @ t"
    using effects_retry_sentence_audio by blast
  then show ?thesis
    by (simp add: generate_sentence_audio_def Let_def case_prod_beta g4_def
        split: tts_result.splits)
qed

section \<open>Cache Store: a stale entry\<close>

text \<open>
  C7. When the cache metadata maps the hash of a text to a file that is not on disk, the
  lookup \<open>get_cached_audio\<close> answers \<open>None\<close> (a miss, no exception), and the Audio
  Stage, asked for a record with that word that is neither failed nor cancelled, calls
  the speech backend for the word before anything else.
\<close>

theorem stale_cache_entry_is_a_miss:
  assumes "map_of (audio_cache_metadata g) (md5_hex ev text) = Some f"
    and "fs g (path_join (audio_cache_dir cfg) f) = None"
  shows "get_cached_audio ev cfg g text = None
       \<and> (\<not> cancelled g \<and> \<not> truthy (error (records g a)) \<and> word (records g a) = text \<longrightarrow>
            (\<exists>t. effects (trace (snd (generate_audio_for_flashcard ev cfg a g)))
                 = effects (trace g) @ TtsCall text (normalize_filename text) # t))"
proof -
  have miss: "get_cached_audio ev cfg g text = None"
    using assms by (simp add: get_cached_audio_def get_audio_cache_key_def exists_def)
  have call: "\<exists>t. effects (trace (snd (generate_audio_for_flashcard ev cfg a g)))
                 = effects (trace g) @ TtsCall text (normalize_filename text) # t"
    if h: "\<not> cancelled g" "\<not> truthy (error (records g a))" "word (records g a) = text"
  proof -
    have w: "generate_word_audio ev cfg a g = synthesize_word_audio ev cfg a g"
      using miss h by (simp add: generate_word_audio_def)
    obtain t1 where t1: "effects (trace (snd (synthesize_word_audio ev cfg a g)))
         = effects (trace g) @ TtsCall text (normalize_filename text) # t1"
      using effects_synthesize_word_audio [of ev cfg a g] h by auto
    obtain t2 where t2:
      "effects (trace (snd (generate_sentence_audio ev cfg a (snd (synthesize_word_audio ev cfg a g)))))
         = effects (trace (snd (synthesize_word_audio ev cfg a g))) @ t2"
      using effects_generate_sentence_audio by blast
    show ?thesis
      using h w t1 t2
      by (simp add: generate_audio_for_flashcard_def case_prod_beta)
  qed
  show ?thesis using miss call by blast
qed

theorem stale_cache_entry_is_a_miss_witness:
  "map_of (audio_cache_metadata stale_cache_generator) (md5_hex example_env ''hund'')
     = Some ''md5-hund.wav''
   \<and> fs stale_cache_generator (path_join (audio_cache_dir example_config) ''md5-hund.wav'') = None
   \<and> \<not> cancelled stale_cache_generator
   \<and> \<not> truthy (error (records stale_cache_generator 0))
   \<and> word (records stale_cache_generator 0) = ''hund''
   \<and> get_cached_audio example_env example_config stale_cache_generator ''hund'' = None
   \<and> (\<exists>t. effects (trace (snd (generate_audio_for_flashcard example_env example_config 0
                stale_cache_generator)))
           = effects (trace stale_cache_generator) @ TtsCall ''hund'' ''hund'' # t)"
proof -
  have p: "path_join (audio_cache_dir example_config) ''md5-hund.wav''
             = ''./audio_cache/md5-hund.wav''"
    by (simp add: path_join_def startswith_def endswith_def example_config_def)
  have h1: "map_of (audio_cache_metadata stale_cache_generator) (md5_hex example_env ''hund'')
     = Some ''md5-hund.wav''"
    by (simp add: stale_cache_generator_def example_env_def)
  have h2: "fs stale_cache_generator (path_join (audio_cache_dir example_config) ''md5-hund.wav'')
     = None"
    unfolding p by (simp add: stale_cache_generator_def resumed_generator_def)
  have h3: "\<not> cancelled stale_cache_generator"
    "\<not> truthy (error (records stale_cache_generator 0))"
    "word (records stale_cache_generator 0) = ''hund''"
    by (simp_all add: stale_cache_generator_def resumed_generator_def example_card_def truthy_def)
  show ?thesis
    using stale_cache_entry_is_a_miss [OF h1 h2, of 0] h1 h2 h3
    by (simp add: normalize_filename_hund)
qed

lemma exists_write_file [simp]: "exists (write_file p c g) q = (q = p \<or> exists g q)"
  by (auto simp: exists_def)

lemma exists_setters [simp]:
  "exists (set_audio_sentence_file a f g) p = exists g p"
  "exists (set_error a m g) p = exists g p"
  by (simp_all add: exists_def)

lemma exists_tts_store: "exists g p \<Longrightarrow> exists (tts_store cfg text f art g) p"
  by (simp add: tts_store_def split: tts_artifact.splits)

lemma exists_tts_call: "exists g p \<Longrightarrow> exists (snd (tts_call ev cfg text f g)) p"
  by (simp add: tts_call_def Let_def exists_tts_store split: tts_result.splits)

lemma exists_after_tts_call:
  "tts_generate ev (length (filter is_tts_call (trace g))) text f = TtsDone art \<Longrightarrow>
   art \<noteq> Elsewhere \<Longrightarrow>
   exists (snd (tts_call ev cfg text f g)) (path_join (audio_dir cfg) (f @ ''.wav''))
   \<or> exists (snd (tts_call ev cfg text f g)) (path_join (audio_dir cfg) (f @ ''.wav'') @ ''.wav'')"
  by (cases art) (simp_all add: tts_call_def Let_def tts_store_def)

lemma exists_copy2: "exists g src \<Longrightarrow> exists g p \<Longrightarrow> exists (copy2 ev src dst g) p"
  by (simp add: exists_def)

lemma exists_store_in_cache:
  "exists g src \<Longrightarrow> exists g p \<Longrightarrow> exists (store_in_cache ev cfg src k f g) p"
  by (simp add: store_in_cache_def Let_def save_audio_cache_metadata_def exists_def)

lemma exists_cache_audio: "exists g p \<Longrightarrow> exists (snd (cache_audio ev cfg text f g)) p"
  by (simp add: cache_audio_def Let_def exists_store_in_cache)

lemma cache_audio_stores:
  assumes "exists g (path_join (audio_dir cfg) f) \<or> exists g (path_join (audio_dir cfg) f @ ''.wav'')"
  shows "map_of (audio_cache_metadata (snd (cache_audio ev cfg text f g))) (md5_hex ev text)
           = Some (md5_hex ev text @ ''.wav'')
       \<and> exists (snd (cache_audio ev cfg text f g))
           (path_join (audio_cache_dir cfg) (md5_hex ev text @ ''.wav''))"
  using assms
  by (auto simp add: cache_audio_def Let_def store_in_cache_def save_audio_cache_metadata_def
      get_audio_cache_key_def update_conv' exists_def)

lemma retry_sentence_audio_keeps:
  "audio_cache_metadata (snd (retry_sentence_audio ev cfg a g)) = audio_cache_metadata g"
  "exists g p \<Longrightarrow> exists (snd (retry_sentence_audio ev cfg a g)) p"
  "word (records (snd (retry_sentence_audio ev cfg a g)) b) = word (records g b)"
  by (simp_all add: retry_sentence_audio_def Let_def case_prod_beta exists_tts_call
      split: tts_result.splits)

lemma generate_sentence_audio_keeps:
  "audio_cache_metadata (snd (generate_sentence_audio ev cfg a g)) = audio_cache_metadata g"
  "exists g p \<Longrightarrow> exists (snd (generate_sentence_audio ev cfg a g)) p"
  "word (records (snd (generate_sentence_audio ev cfg a g)) b) = word (records g b)"
  by (simp_all add: generate_sentence_audio_def Let_def case_prod_beta exists_tts_call
      retry_sentence_audio_keeps split: tts_result.splits)

lemma count_retry_sentence_audio:
  "count_list (effects (trace (snd (retry_sentence_audio ev cfg a g))))
     (TtsCall w (normalize_filename (word (records g a))))
   = count_list (effects (trace g)) (TtsCall w (normalize_filename (word (records g a))))"
  by (simp add: retry_sentence_audio_def Let_def case_prod_beta split: tts_result.splits)

lemma count_generate_sentence_audio:
  "count_list (effects (trace (snd (generate_sentence_audio ev cfg a g))))
     (TtsCall w (normalize_filename (word (records g a))))
   = count_list (effects (trace g)) (TtsCall w (normalize_filename (word (records g a))))"
proof -
  define g4 where "g4 = snd (sleep ev 20 (log_message ev MsgRateLimit
      (snd (tts_call ev cfg (example_sentence_da (records g a))
        (normalize_filename (word (records g a)) @ ''_sentence'')
        (update_state ev GENERATING_AUDIO (MsgGeneratingSentenceAudio (word (records g a))) g)))))"
  have "word (records g4 a) = word (records g a)"
    by (simp add: g4_def)
  then show ?thesis
    using count_retry_sentence_audio [of ev cfg a g4 w]
    by (simp add: generate_sentence_audio_def Let_def case_prod_beta g4_def
        split: tts_result.splits)
qed

lemma first_word_request:
  assumes miss: "get_cached_audio ev cfg g w = None"
    and w: "w = word (records g a)" and wfile: "wfile = normalize_filename w"
    and k: "k = length (filter is_tts_call (trace g))"
    and tts_ok: "tts_generate ev k w wfile = TtsDone art" and art: "art \<noteq> Elsewhere"
  shows "map_of (audio_cache_metadata (snd (generate_word_audio ev cfg a g))) (md5_hex ev w)
           = Some (md5_hex ev w @ ''.wav'')
       \<and> exists (snd (generate_word_audio ev cfg a g))
           (path_join (audio_cache_dir cfg) (md5_hex ev w @ ''.wav''))
       \<and> count_list (effects (trace (snd (generate_word_audio ev cfg a g)))) (TtsCall w wfile)
           = Suc (count_list (effects (trace g)) (TtsCall w wfile))
       \<and> word (records (snd (generate_word_audio ev cfg a g)) b) = word (records g b)"
proof -
  define g1 where "g1 = update_state ev GENERATING_AUDIO (MsgGeneratingWordAudio w) g"
  define g2 where "g2 = snd (tts_call ev cfg w wfile g1)"
  define g3 where "g3 = set_audio_word_file a (wfile @ ''.wav'') g2"
  define g4 where "g4 = snd (cache_audio ev cfg w (wfile @ ''.wav'') g3)"
  define g5 where "g5 = log_message ev (MsgGeneratedWordAudio w) g4"
  define g6 where "g6 = (if \<not> cancelled g5
                         then snd (sleep_after_audio ev cfg a ''Error generating word audio: '' g5)
                         else g5)"
  have k1: "length (filter is_tts_call (trace g1)) = k"
    by (simp add: g1_def k tts_calls_via_effects [of "trace g"]
        tts_calls_via_effects [of "trace (update_state _ _ _ _)"])
  have r: "fst (tts_call ev cfg w wfile g1) = TtsDone art"
    using tts_ok k1 by simp
  have res: "snd (generate_word_audio ev cfg a g) = g6"
    using miss r
    by (simp add: generate_word_audio_def synthesize_word_audio_def Let_def case_prod_beta
        w [symmetric] wfile [symmetric] g1_def [symmetric] g2_def [symmetric] g3_def [symmetric]
        g4_def [symmetric] g5_def [symmetric] g6_def)
  have src: "exists g3 (path_join (audio_dir cfg) (wfile @ ''.wav''))
           \<or> exists g3 (path_join (audio_dir cfg) (wfile @ ''.wav'') @ ''.wav'')"
    using exists_after_tts_call [of ev g1 w wfile art cfg] tts_ok art k1
    by (simp add: g3_def g2_def)
  have st: "map_of (audio_cache_metadata g4) (md5_hex ev w) = Some (md5_hex ev w @ ''.wav'')
          \<and> exists g4 (path_join (audio_cache_dir cfg) (md5_hex ev w @ ''.wav''))"
    unfolding g4_def using cache_audio_stores [OF src] .
  have m6: "audio_cache_metadata g6 = audio_cache_metadata g4"
    and e6: "exists g6 p = exists g4 p" for p
    by (simp_all add: g6_def g5_def)
  have c6: "count_list (effects (trace g6)) (TtsCall w wfile)
              = Suc (count_list (effects (trace g)) (TtsCall w wfile))"
    by (simp add: g6_def g5_def g4_def g3_def g2_def g1_def)
  have w6: "word (records g6 b) = word (records g b)"
    by (simp add: g6_def g5_def g4_def g3_def g2_def g1_def)
  show ?thesis
    using st c6 w6 by (simp add: res m6 e6)
qed

lemma cached_word_request:
  assumes "get_cached_audio ev cfg g w = Some cf" and "cf \<noteq> []" and "w = word (records g b)"
    and "wfile = normalize_filename w"
  shows "fst (generate_word_audio ev cfg b g)
       \<and> effects (trace (snd (generate_word_audio ev cfg b g)))
           = effects (trace g)
             @ [CopyFile (path_join (audio_cache_dir cfg) cf)
                  (path_join (audio_dir cfg) (wfile @ ''.wav''))]
       \<and> word (records (snd (generate_word_audio ev cfg b g)) b) = w"
  using assms by (simp add: generate_word_audio_def Let_def)

lemma audio_stage_cases:
  assumes "\<not> cancelled g" and "\<not> truthy (error (records g a))"
  shows "snd (generate_audio_for_flashcard ev cfg a g) = snd (generate_word_audio ev cfg a g)
       \<or> snd (generate_audio_for_flashcard ev cfg a g)
           = snd (generate_sentence_audio ev cfg a (snd (generate_word_audio ev cfg a g)))"
  using assms by (simp add: generate_audio_for_flashcard_def case_prod_beta)

section \<open>Cache Store: the second request for a word\<close>

text \<open>
  C6. A record \<open>a\<close> without error is given to the Audio Stage of a generator that is not
  cancelled and has no cache entry for the record's word \<open>w\<close>, and the speech backend
  answers the call for the word with an artifact in the audio directory (under the plain
  or the doubled extension). Then that request calls the backend for the word exactly
  once and leaves a cache entry under the hash of \<open>w\<close>, named by the hash, whose file is
  on disk. A second request, for any record \<open>b\<close> without error that has the same word,
  calls the backend for the word no more: its first effect is the copy of the cached file
  to the word's place in the audio directory.
\<close>

theorem second_request_served_from_cache:
  assumes nc: "\<not> cancelled g" and ne: "\<not> truthy (error (records g a))"
    and w: "w = word (records g a)" and wfile: "wfile = normalize_filename w"
    and miss: "get_cached_audio ev cfg g w = None"
    and tts_ok: "tts_generate ev (length (filter is_tts_call (trace g))) w wfile = TtsDone art"
    and art: "art \<noteq> Elsewhere"
    and g1: "g1 = snd (generate_audio_for_flashcard ev cfg a g)"
    and nc1: "\<not> cancelled g1" and ne1: "\<not> truthy (error (records g1 b))"
    and w1: "word (records g1 b) = w"
    and g2: "g2 = snd (generate_audio_for_flashcard ev cfg b g1)"
  shows "count_list (effects (trace g1)) (TtsCall w wfile)
           = Suc (count_list (effects (trace g)) (TtsCall w wfile))
       \<and> map_of (audio_cache_metadata g1) (md5_hex ev w) = Some (md5_hex ev w @ ''.wav'')
       \<and> exists g1 (path_join (audio_cache_dir cfg) (md5_hex ev w @ ''.wav''))
       \<and> get_cached_audio ev cfg g1 w = Some (md5_hex ev w @ ''.wav'')
       \<and> count_list (effects (trace g2)) (TtsCall w wfile)
           = count_list (effects (trace g1)) (TtsCall w wfile)
       \<and> (\<exists>t. effects (trace g2)
                = effects (trace g1)
                  @ CopyFile (path_join (audio_cache_dir cfg) (md5_hex ev w @ ''.wav''))
                      (path_join (audio_dir cfg) (wfile @ ''.wav'')) # t)"
proof -
  define gw where "gw = snd (generate_word_audio ev cfg a g)"
  have first: 
    "map_of (audio_cache_metadata gw) (md5_hex ev w) = Some (md5_hex ev w @ ''.wav'')"
    "exists gw (path_join (audio_cache_dir cfg) (md5_hex ev w @ ''.wav''))"
    "count_list (effects (trace gw)) (TtsCall w wfile)
       = Suc (count_list (effects (trace g)) (TtsCall w wfile))"
    "word (records gw a) = w"
    using first_word_request [OF miss w wfile refl tts_ok art, where b = a] w
    by (simp_all add: gw_def)
  have g1_cases: "g1 = gw \<or> g1 = snd (generate_sentence_audio ev cfg a gw)"
    using audio_stage_cases [OF nc ne] by (simp add: g1 gw_def)
  have wf_a: "normalize_filename (word (records gw a)) = wfile"
    using first(4) wfile by simp
  have c1: "count_list (effects (trace g1)) (TtsCall w wfile)
              = Suc (count_list (effects (trace g)) (TtsCall w wfile))"
    using g1_cases first(3) count_generate_sentence_audio [of ev cfg a gw w]
    by (auto simp add: wf_a)
  have m1: "map_of (audio_cache_metadata g1) (md5_hex ev w) = Some (md5_hex ev w @ ''.wav'')"
    using g1_cases first(1) by (auto simp add: generate_sentence_audio_keeps)
  have e1: "exists g1 (path_join (audio_cache_dir cfg) (md5_hex ev w @ ''.wav''))"
    using g1_cases first(2) by (auto simp add: generate_sentence_audio_keeps)
  have hit: "get_cached_audio ev cfg g1 w = Some (md5_hex ev w @ ''.wav'')"
    using m1 e1 by (simp add: get_cached_audio_def get_audio_cache_key_def)
  define gv where "gv = snd (generate_word_audio ev cfg b g1)"
  have second:
    "effects (trace gv)
       = effects (trace g1)
         @ [CopyFile (path_join (audio_cache_dir cfg) (md5_hex ev w @ ''.wav''))
              (path_join (audio_dir cfg) (wfile @ ''.wav''))]"
    "word (records gv b) = w"
    using cached_word_request [OF hit _ w1 [symmetric] wfile]
    by (simp_all add: gv_def)
  have g2_cases: "g2 = gv \<or> g2 = snd (generate_sentence_audio ev cfg b gv)"
    using audio_stage_cases [OF nc1 ne1] by (simp add: g2 gv_def)
  have wf_b: "normalize_filename (word (records gv b)) = wfile"
    using second(2) wfile by simp
  have c2: "count_list (effects (trace g2)) (TtsCall w wfile)
              = count_list (effects (trace g1)) (TtsCall w wfile)"
    using g2_cases second(1) count_generate_sentence_audio [of ev cfg b gv w]
    by (auto simp add: wf_b)
  obtain t where "effects (trace (snd (generate_sentence_audio ev cfg b gv)))
                    = effects (trace gv) @ t"
    using effects_generate_sentence_audio by blast
  then have ex: "\<exists>t. effects (trace g2)
                = effects (trace g1)
                  @ CopyFile (path_join (audio_cache_dir cfg) (md5_hex ev w @ ''.wav''))
                      (path_join (audio_dir cfg) (wfile @ ''.wav'')) # t"
    using g2_cases second(1) by auto
  show ?thesis using c1 m1 e1 hit c2 ex by blast
qed

lemma cancelled_quiet_sentence_audio:
  assumes "\<forall>n. \<not> cancel_req ev n"
  shows "cancelled (snd (generate_sentence_audio ev cfg a g)) = cancelled g"
  using assms
  by (simp add: generate_sentence_audio_def retry_sentence_audio_def
      Let_def case_prod_beta cancelled_quiet_steps split: tts_result.splits)

lemma cancelled_quiet_audio_stage:
  assumes "\<forall>n. \<not> cancel_req ev n"
  shows "cancelled (snd (generate_audio_for_flashcard ev cfg a g)) = cancelled g"
  using assms
  by (simp add: generate_audio_for_flashcard_def case_prod_beta
      cancelled_quiet_word_audio cancelled_quiet_sentence_audio)

lemma other_records_word_audio:
  "b \<noteq> a \<Longrightarrow> records (snd (generate_word_audio ev cfg a g)) b = records g b"
  by (simp add: generate_word_audio_def synthesize_word_audio_def retry_word_audio_def
      Let_def case_prod_beta split: option.splits tts_result.splits)

lemma other_records_sentence_audio:
  "b \<noteq> a \<Longrightarrow> records (snd (generate_sentence_audio ev cfg a g)) b = records g b"
  by (simp add: generate_sentence_audio_def retry_sentence_audio_def
      Let_def case_prod_beta split: tts_result.splits)

lemma other_records_audio_stage:
  "b \<noteq> a \<Longrightarrow> records (snd (generate_audio_for_flashcard ev cfg a g)) b = records g b"
  by (simp add: generate_audio_for_flashcard_def case_prod_beta
      other_records_word_audio other_records_sentence_audio)

lemma two_cards_generator_facts:
  "records two_cards_generator 0 = example_card"
  "records two_cards_generator (Suc 0) = example_card"
  "\<not> cancelled two_cards_generator"
  "trace two_cards_generator = []"
  "get_cached_audio ev example_config two_cards_generator t = None"
  "word example_card = ''hund''"
  "\<not> truthy (error example_card)"
  by (simp_all add: two_cards_generator_def resumed_generator_def example_card_def truthy_def
      get_cached_audio_def)

theorem second_request_served_from_cache_witness:
  "\<not> cancelled two_cards_generator
   \<and> \<not> truthy (error (records two_cards_generator 0))
   \<and> get_cached_audio example_env example_config two_cards_generator ''hund'' = None
   \<and> tts_generate example_env (length (filter is_tts_call (trace two_cards_generator)))
        ''hund'' ''hund'' = TtsDone Plain
   \<and> \<not> cancelled (snd (generate_audio_for_flashcard example_env example_config 0
            two_cards_generator))
   \<and> \<not> truthy (error (records (snd (generate_audio_for_flashcard example_env example_config 0
            two_cards_generator)) 1))
   \<and> word (records (snd (generate_audio_for_flashcard example_env example_config 0
            two_cards_generator)) 1) = ''hund''
   \<and> count_list (effects (trace (snd (generate_audio_for_flashcard example_env example_config 0
            two_cards_generator)))) (TtsCall ''hund'' ''hund'') = 1
   \<and> get_cached_audio example_env example_config
        (snd (generate_audio_for_flashcard example_env example_config 0 two_cards_generator))
        ''hund'' = Some ''md5-hund.wav''
   \<and> count_list (effects (trace (snd (generate_audio_for_flashcard example_env example_config 1
            (snd (generate_audio_for_flashcard example_env example_config 0
               two_cards_generator)))))) (TtsCall ''hund'' ''hund'') = 1"
proof -
  define g1 where
    "g1 = snd (generate_audio_for_flashcard example_env example_config 0 two_cards_generator)"
  define g2 where
    "g2 = snd (generate_audio_for_flashcard example_env example_config (Suc 0) g1)"
  have h1: "\<not> cancelled two_cards_generator"
    and h2: "\<not> truthy (error (records two_cards_generator 0))"
    and h3: "''hund'' = word (records two_cards_generator 0)"
    and h4: "''hund'' = normalize_filename ''hund''"
    and h5: "get_cached_audio example_env example_config two_cards_generator ''hund'' = None"
    and h6: "tts_generate example_env (length (filter is_tts_call (trace two_cards_generator)))
               ''hund'' ''hund'' = TtsDone Plain"
    and h7: "Plain \<noteq> Elsewhere"
    by (simp_all add: two_cards_generator_facts normalize_filename_hund example_env_def)
  have h9: "\<not> cancelled g1"
    by (simp add: g1_def cancelled_quiet_audio_stage example_envs_quiet two_cards_generator_facts)
  have r1: "records g1 (Suc 0) = example_card"
    by (simp add: g1_def other_records_audio_stage two_cards_generator_facts)
  have h10: "\<not> truthy (error (records g1 (Suc 0)))"
    and h11: "word (records g1 (Suc 0)) = ''hund''"
    using r1 by (simp_all add: two_cards_generator_facts)
  have md5: "md5_hex example_env ''hund'' = ''md5-hund''"
    by (simp add: example_env_def)
  have c0: "count_list (effects (trace two_cards_generator)) (TtsCall ''hund'' ''hund'') = 0"
    by (simp add: two_cards_generator_facts effects_def)
  show ?thesis
    using second_request_served_from_cache
        [OF h1 h2 h3 h4 h5 h6 h7 g1_def h9 h10 h11 g2_def] h1 h2 h5 h6 h9 h10 h11
    by (simp add: g1_def [symmetric] g2_def [symmetric] md5 c0)
qed

lemma init_blank_error:
  "init example_env example_config blank_error_disk = Inr blank_error_generator"
  "records blank_error_generator 0 = blank_error_card"
  "checkpoint blank_error_generator = [(''hund'', 0)]"
  "\<not> cancelled blank_error_generator"
  "audio_cache_metadata blank_error_generator = []"
  by (simp_all add: blank_error_generator_def init_def makedirs_def write_file_def
      blank_error_disk_def example_config_def load_checkpoint_def load_entry_def alloc_def
      load_audio_cache_metadata_def metadata_file_def path_join_def startswith_def endswith_def
      log_message_def emit_def append_event_def cancel_def example_env_def Let_def)

lemma error_stays_sleep_after_audio:
  "truthy (error (records g a)) \<Longrightarrow>
   truthy (error (records (snd (sleep_after_audio ev cfg b p g)) a))"
  by (simp add: truthy_def)

lemma error_stays_retry_word_audio:
  "truthy (error (records g a)) \<Longrightarrow> truthy (error (records (snd (retry_word_audio ev cfg b g)) a))"
  by (cases "fst (tts_call ev cfg (word (records g b)) (normalize_filename (word (records g b))) g)")
     (auto simp add: retry_word_audio_def Let_def case_prod_beta truthy_def
        del: tts_call_fields(6))

lemma error_stays_synthesize_word_audio:
  assumes "truthy (error (records g a))"
  shows "truthy (error (records (snd (synthesize_word_audio ev cfg b g)) a))"
proof -
  define g1 where "g1 = update_state ev GENERATING_AUDIO (MsgGeneratingWordAudio (word (records g b))) g"
  define r where "r = fst (tts_call ev cfg (word (records g b)) (normalize_filename (word (records g b))) g1)"
  define g2 where "g2 = snd (tts_call ev cfg (word (records g b)) (normalize_filename (word (records g b))) g1)"
  define g4 where "g4 = snd (sleep ev 20 (log_message ev MsgRateLimit g2))"
  have k2: "truthy (error (records g2 a))" "truthy (error (records g4 a))"
    using assms by (simp_all add: g4_def g2_def g1_def)
  have w4: "word (records g4 b) = word (records g b)"
    by (simp add: g4_def g2_def g1_def)
  show ?thesis
  proof (cases r)
    case (TtsDone art)
    then show ?thesis
      using k2(1) unfolding r_def g2_def g1_def
      by (auto simp add: synthesize_word_audio_def Let_def case_prod_beta truthy_def
          del: tts_call_fields(6))
  next
    case (TtsClientError code m)
    then show ?thesis
      using k2 error_stays_retry_word_audio [of g4 a ev cfg b] unfolding r_def g4_def g2_def g1_def
      by (auto simp add: synthesize_word_audio_def Let_def case_prod_beta truthy_def
          del: tts_call_fields(6))
  next
    case (TtsRaises m)
    then show ?thesis
      using k2(1) unfolding r_def g2_def g1_def
      by (auto simp add: synthesize_word_audio_def Let_def case_prod_beta truthy_def
          del: tts_call_fields(6))
  qed
qed

lemma error_stays_word_audio:
  "truthy (error (records g a)) \<Longrightarrow> truthy (error (records (snd (generate_word_audio ev cfg b g)) a))"
  by (auto simp add: generate_word_audio_def Let_def error_stays_synthesize_word_audio
      split: option.splits)

lemma error_stays_retry_sentence_audio:
  "truthy (error (records g a)) \<Longrightarrow>
   truthy (error (records (snd (retry_sentence_audio ev cfg b g)) a))"
  by (cases "fst (tts_call ev cfg (example_sentence_da (records g b))
                (normalize_filename (word (records g b)) @ ''_sentence'') g)")
     (auto simp add: retry_sentence_audio_def Let_def case_prod_beta truthy_def
        del: tts_call_fields(6))

lemma error_stays_sentence_audio:
  assumes "truthy (error (records g a))"
  shows "truthy (error (records (snd (generate_sentence_audio ev cfg b g)) a))"
proof -
  define g1 where
    "g1 = update_state ev GENERATING_AUDIO (MsgGeneratingSentenceAudio (word (records g b))) g"
  define r where "r = fst (tts_call ev cfg (example_sentence_da (records g b))
                            (normalize_filename (word (records g b)) @ ''_sentence'') g1)"
  define g2 where "g2 = snd (tts_call ev cfg (example_sentence_da (records g b))
                            (normalize_filename (word (records g b)) @ ''_sentence'') g1)"
  define g4 where "g4 = snd (sleep ev 20 (log_message ev MsgRateLimit g2))"
  have k2: "truthy (error (records g2 a))" "truthy (error (records g4 a))"
    using assms by (simp_all add: g4_def g2_def g1_def)
  show ?thesis
  proof (cases r)
    case (TtsDone art)
    then show ?thesis
      using k2(1) unfolding r_def g2_def g1_def
      by (auto simp add: generate_sentence_audio_def Let_def case_prod_beta truthy_def
          del: tts_call_fields(6))
  next
    case (TtsClientError code m)
    then show ?thesis
      using k2 error_stays_retry_sentence_audio [of g4 a ev cfg b]
      unfolding r_def g4_def g2_def g1_def
      by (auto simp add: generate_sentence_audio_def Let_def case_prod_beta truthy_def
          del: tts_call_fields(6))
  next
    case (TtsRaises m)
    then show ?thesis
      using k2(1) unfolding r_def g2_def g1_def
      by (auto simp add: generate_sentence_audio_def Let_def case_prod_beta truthy_def
          del: tts_call_fields(6))
  qed
qed

lemma error_stays_audio_stage:
  "truthy (error (records g a)) \<Longrightarrow>
   truthy (error (records (snd (generate_audio_for_flashcard ev cfg b g)) a))"
  by (simp add: generate_audio_for_flashcard_def case_prod_beta
      error_stays_word_audio error_stays_sentence_audio)

lemma add_failed_word_fields [simp]:
  "records (add_failed_word g) = records g"
  "trace (add_failed_word g) = trace g"
  "cancelled (add_failed_word g) = cancelled g"
  "state (add_failed_word g) = state g"
  "fs (add_failed_word g) = fs g"
  "checkpoint (add_failed_word g) = checkpoint g"
  "audio_cache_metadata (add_failed_word g) = audio_cache_metadata g"
  by (simp_all add: add_failed_word_def)

lemma error_stays_audio_step:
  "truthy (error (records g a)) \<Longrightarrow> truthy (error (records (audio_step ev cfg n i b g) a))"
  using error_stays_audio_stage
    [of "g\<lparr>stats := (stats g)\<lparr>estimated_time_remaining :=
            Some (real ((n - i) * 2) * tts_delay cfg)\<rparr>\<rparr>" a ev cfg b]
  by (simp add: audio_step_def Let_def case_prod_beta)

lemma error_stays_audio_loop:
  "truthy (error (records g a)) \<Longrightarrow> truthy (error (records (audio_loop ev cfg n i bs g) a))"
  by (induction bs arbitrary: g i) (simp_all add: error_stays_audio_step)

lemma records_copy_audio_file [simp]:
  "records (copy_audio_file ev cfg d f g) = records g"
  by (simp add: copy_audio_file_def Let_def)

lemma records_copy_flashcard_audio [simp]:
  "records (copy_flashcard_audio ev cfg d b g) = records g"
  by (simp add: copy_flashcard_audio_def Let_def split: option.splits)

lemma records_copy_loop [simp]:
  "records (fold (copy_flashcard_audio ev cfg d) bs g) = records g"
  by (induction bs arbitrary: g) simp_all

lemma records_get_anki_media_dir [simp]:
  "records (snd (get_anki_media_dir ev g)) = records g"
  by (simp add: get_anki_media_dir_def Let_def split: sum.splits)

lemma records_copy_audio_to_anki [simp]:
  "records (snd (copy_audio_to_anki ev cfg bs g)) = records g"
  by (simp add: copy_audio_to_anki_def Let_def case_prod_beta)

lemma error_stays_send_flashcard:
  "truthy (error (records g a)) \<Longrightarrow> truthy (error (records (send_flashcard ev cfg b g) a))"
  by (auto simp add: send_flashcard_def send_reverse_note_def Let_def case_prod_beta
      split: option.splits)

lemma error_stays_send_loop:
  "truthy (error (records g a)) \<Longrightarrow>
   truthy (error (records (fold (send_flashcard ev cfg) bs g) a))"
  by (induction bs arbitrary: g) (simp_all add: error_stays_send_flashcard)

lemma error_stays_send_to_anki:
  "truthy (error (records g a)) \<Longrightarrow> truthy (error (records (send_to_anki ev cfg bs g) a))"
  by (simp add: send_to_anki_def error_stays_send_loop)

lemma audio_stage_first_call:
  assumes "\<not> cancelled g" and "\<not> truthy (error (records g a))"
    and "get_cached_audio ev cfg g (word (records g a)) = None"
  shows "\<exists>t. effects (trace (snd (generate_audio_for_flashcard ev cfg a g)))
             = effects (trace g)
               @ TtsCall (word (records g a)) (normalize_filename (word (records g a))) # t"
proof -
  have w: "generate_word_audio ev cfg a g = synthesize_word_audio ev cfg a g"
    using assms by (simp add: generate_word_audio_def)
  obtain t1 where t1: "effects (trace (snd (synthesize_word_audio ev cfg a g)))
       = effects (trace g)
         @ TtsCall (word (records g a)) (normalize_filename (word (records g a))) # t1"
    using effects_synthesize_word_audio [of ev cfg a g] by auto
  obtain t2 where t2:
    "effects (trace (snd (generate_sentence_audio ev cfg a (snd (synthesize_word_audio ev cfg a g)))))
       = effects (trace (snd (synthesize_word_audio ev cfg a g))) @ t2"
    using effects_generate_sentence_audio by blast
  show ?thesis
    using assms w t1 t2
    by (simp add: generate_audio_for_flashcard_def case_prod_beta)
qed

lemma send_flashcard_first_note:
  assumes "\<not> cancelled g" and "\<not> truthy (error (records g a))"
  shows "\<exists>t. effects (trace (send_flashcard ev cfg a g))
             = effects (trace g) @ AddNote (forward_note cfg (records g a)) # t"
  using assms
  by (simp add: send_flashcard_def send_reverse_note_def Let_def case_prod_beta
      split: option.splits)

section \<open>Failed records\<close>

text \<open>
  C1, as stated, fails for a record whose error field is the empty string, which is not
  null: the guards of the source test the field by truth value. The generator constructed
  over a checkpoint file with such a record hands it to the Audio Stage, which calls the
  speech backend for it, and the Publish Stage submits its forward note.
\<close>

theorem blank_error_record_is_processed:
  "init example_env example_config blank_error_disk = Inr blank_error_generator
   \<and> error (records blank_error_generator 0) \<noteq> None
   \<and> TtsCall ''hund'' ''hund''
       \<in> set (effects (trace (audio_loop example_env example_config 1 1 [0]
                  blank_error_generator)))
   \<and> AddNote (forward_note example_config blank_error_card)
       \<in> set (effects (trace (send_flashcard example_env example_config 0
                  blank_error_generator)))"
proof -
  have card: "error blank_error_card = Some []" "word blank_error_card = ''hund''"
    by (simp_all add: blank_error_card_def example_card_def)
  define g where "g = blank_error_generator\<lparr>stats := (stats blank_error_generator)
      \<lparr>estimated_time_remaining := Some (real ((1 - 1) * 2) * tts_delay example_config)\<rparr>\<rparr>"
  have g: "\<not> cancelled g" "\<not> truthy (error (records g 0))" "word (records g 0) = ''hund''"
    "get_cached_audio example_env example_config g (word (records g 0)) = None"
    by (simp_all add: g_def init_blank_error card truthy_def get_cached_audio_def)
  obtain t where "effects (trace (snd (generate_audio_for_flashcard example_env example_config 0 g)))
             = effects (trace g) @ TtsCall ''hund'' ''hund'' # t"
    using audio_stage_first_call [OF g(1,2,4)] by (auto simp add: g(3) normalize_filename_hund)
  then have a: "TtsCall ''hund'' ''hund''
       \<in> set (effects (trace (audio_loop example_env example_config 1 1 [0]
                  blank_error_generator)))"
    using g(2) by (simp add: audio_step_def Let_def case_prod_beta g_def init_blank_error)
  obtain u where "effects (trace (send_flashcard example_env example_config 0 blank_error_generator))
             = effects (trace blank_error_generator)
               @ AddNote (forward_note example_config blank_error_card) # u"
    using send_flashcard_first_note [of blank_error_generator 0 example_env example_config]
    by (auto simp add: init_blank_error card truthy_def)
  then have b: "AddNote (forward_note example_config blank_error_card)
       \<in> set (effects (trace (send_flashcard example_env example_config 0
                  blank_error_generator)))"
    by simp
  show ?thesis
    using a b by (simp add: init_blank_error card)
qed

text \<open>
  C1, amended. For a record whose error field is true in Python's sense (neither
  \<open>None\<close> nor the empty string), in any state of the generator: the Audio Stage
  returns \<open>False\<close> and changes nothing, so it makes no synthesis call; the audio loop
  of \<open>run\<close> passes the record over; the Publish Stage copies no audio file for it and
  submits no note for it, forward or reverse; and the error stays set through the
  audio loop, the copying and the publication of any records.
\<close>

theorem failed_record_is_skipped:
  assumes "truthy (error (records g a))"
  shows "generate_audio_for_flashcard ev cfg a g = (False, g)
       \<and> audio_loop ev cfg n i (a # as) g
           = (if cancelled g then g else audio_loop ev cfg n (Suc i) as g)
       \<and> copy_flashcard_audio ev cfg d a g = g
       \<and> send_flashcard ev cfg a g = g
       \<and> truthy (error (records (audio_loop ev cfg n i bs g) a))
       \<and> truthy (error (records (snd (copy_audio_to_anki ev cfg bs g)) a))
       \<and> truthy (error (records (send_to_anki ev cfg bs g) a))"
  using assms
  by (simp add: generate_audio_for_flashcard_def copy_flashcard_audio_def send_flashcard_def
      error_stays_audio_loop error_stays_send_to_anki)

theorem failed_record_is_skipped_witness:
  "truthy (error (records failed_card_generator 0))
   \<and> generate_audio_for_flashcard example_env example_config 0 failed_card_generator
       = (False, failed_card_generator)
   \<and> audio_loop example_env example_config 1 1 [0] failed_card_generator = failed_card_generator
   \<and> copy_flashcard_audio example_env example_config ''/media'' 0 failed_card_generator
       = failed_card_generator
   \<and> send_flashcard example_env example_config 0 failed_card_generator = failed_card_generator
   \<and> truthy (error (records (send_to_anki example_env example_config [0] failed_card_generator) 0))"
proof -
  have h: "truthy (error (records failed_card_generator 0))"
    by (simp add: failed_card_generator_def truthy_def)
  show ?thesis
    using failed_record_is_skipped
        [OF h, of example_env example_config 1 1 "[]" "''/media''" "[0]"] h
    by simp
qed

lemma stats_remove_file [simp]: "stats (remove_file p g) = stats g"
  by (simp add: remove_file_def)

lemma stats_alloc [simp]: "stats (snd (alloc fc g)) = stats g"
  by (simp add: alloc_def)

lemma stats_load_entry [simp]: "stats (load_entry kv g) = stats g"
  by (simp add: load_entry_def alloc_def)

lemma stats_load_entries [simp]: "stats (fold load_entry kvs g) = stats g"
  by (induction kvs arbitrary: g) simp_all

lemma stats_load_checkpoint [simp]: "stats (load_checkpoint ev cfg g) = stats g"
  by (simp add: load_checkpoint_def Let_def split: option.splits file_content.splits)

lemma stats_load_audio_cache_metadata [simp]:
  "stats (snd (load_audio_cache_metadata ev cfg g)) = stats g"
  by (simp add: load_audio_cache_metadata_def split: option.splits file_content.splits)

lemma stats_init: "init ev cfg disk = Inr g \<Longrightarrow> stats g = new_stats"
  by (auto simp add: init_def makedirs_def Let_def case_prod_beta
      split: option.splits file_content.splits sum.splits)

lemma stats_read_words [simp]: "stats (snd (read_words ev cfg g)) = stats g"
  by (simp add: read_words_def Let_def split: option.splits file_content.splits)

lemma stats_content_failure [simp]: "stats (snd (content_failure ev w m g)) = stats g"
  by (simp add: content_failure_def)

lemma skipped_generate_content_for_word [simp]:
  "skipped_words (stats (snd (generate_content_for_word ev w g))) = skipped_words (stats g)"
  by (simp add: generate_content_for_word_def Let_def case_prod_beta
      split: option.splits gen_result.splits sum.splits)

lemma skipped_content_step [simp]:
  "skipped_words (stats (snd (content_step ev cfg n i w fcs g))) = skipped_words (stats g)"
  by (simp add: content_step_def Let_def case_prod_beta add_failed_word_def)

lemma skipped_content_loop [simp]:
  "skipped_words (stats (snd (content_loop ev cfg n i ws fcs g))) = skipped_words (stats g)"
  by (induction ws arbitrary: i fcs g) (simp_all add: case_prod_beta)

lemma skipped_audio_step [simp]:
  "skipped_words (stats (audio_step ev cfg n i a g)) = skipped_words (stats g)"
  by (simp add: audio_step_def Let_def case_prod_beta add_failed_word_def)

lemma skipped_audio_loop [simp]:
  "skipped_words (stats (audio_loop ev cfg n i as g)) = skipped_words (stats g)"
  by (induction as arbitrary: i g) simp_all

lemma stats_get_anki_media_dir [simp]: "stats (snd (get_anki_media_dir ev g)) = stats g"
  by (simp add: get_anki_media_dir_def Let_def split: sum.splits)

lemma stats_copy_audio_file [simp]: "stats (copy_audio_file ev cfg d f g) = stats g"
  by (simp add: copy_audio_file_def Let_def)

lemma stats_copy_flashcard_audio [simp]: "stats (copy_flashcard_audio ev cfg d a g) = stats g"
  by (simp add: copy_flashcard_audio_def Let_def split: option.splits)

lemma stats_copy_loop [simp]: "stats (fold (copy_flashcard_audio ev cfg d) as g) = stats g"
  by (induction as arbitrary: g) simp_all

lemma stats_copy_audio_to_anki [simp]: "stats (snd (copy_audio_to_anki ev cfg as g)) = stats g"
  by (simp add: copy_audio_to_anki_def Let_def case_prod_beta)

lemma stats_send_flashcard [simp]: "stats (send_flashcard ev cfg a g) = stats g"
  by (simp add: send_flashcard_def send_reverse_note_def Let_def case_prod_beta
      split: option.splits)

lemma stats_send_loop [simp]: "stats (fold (send_flashcard ev cfg) as g) = stats g"
  by (induction as arbitrary: g) simp_all

lemma stats_send_to_anki [simp]: "stats (send_to_anki ev cfg as g) = stats g"
  by (simp add: send_to_anki_def)

lemma stats_complete_run [simp]: "stats (complete_run ev cfg as g) = stats g"
  by (simp add: complete_run_def Let_def)

lemma stats_publish_and_complete [simp]:
  "stats (publish_and_complete ev cfg as g) = stats g"
  by (simp add: publish_and_complete_def Let_def case_prod_beta)

lemma skipped_run_stages [simp]:
  "skipped_words (stats (run_stages ev cfg ws g)) = skipped_words (stats g)"
  by (simp add: run_stages_def Let_def case_prod_beta)

lemma skipped_run:
  "skipped_words (stats (snd (run ev cfg g))) = skipped_words (stats g)"
  by (simp add: run_def Let_def case_prod_beta split: sum.splits)

section \<open>Statistics: the count of skipped words\<close>

text \<open>
  C10. \<open>skipped_words\<close> is 0 in a generator as constructed, no operation changes it (the
  Content Stage, also where it skips a checkpointed word, \<open>cancel\<close> and the whole of
  \<open>run\<close> leave it as it is), so it is 0 after every run of a generator as constructed.
\<close>

theorem skipped_words_is_never_changed:
  "skipped_words (stats (snd (generate_content_for_word ev w g))) = skipped_words (stats g)
   \<and> skipped_words (stats (cancel g)) = skipped_words (stats g)
   \<and> skipped_words (stats (snd (run ev cfg g))) = skipped_words (stats g)
   \<and> (init ev cfg disk = Inr g \<longrightarrow>
        skipped_words (stats g) = 0 \<and> skipped_words (stats (snd (run ev cfg g))) = 0)"
  using stats_init [of ev cfg disk g]
  by (simp add: skipped_run new_stats_def cancel_def append_event_def Let_def)

theorem skipped_words_is_never_changed_witness:
  "init example_env example_config blank_error_disk = Inr blank_error_generator
   \<and> map_of (checkpoint blank_error_generator) ''hund'' = Some 0
   \<and> skipped_words (stats blank_error_generator) = 0
   \<and> skipped_words (stats (snd (generate_content_for_word example_env ''hund''
        blank_error_generator))) = 0
   \<and> skipped_words (stats (snd (run example_env example_config blank_error_generator))) = 0"
  using skipped_words_is_never_changed
      [of example_env "''hund''" blank_error_generator example_config blank_error_disk]
  by (simp add: init_blank_error)

lemma other_estimates_emit:
  "estimated_time_remaining (stats g) = v \<Longrightarrow>
   other_estimates v (emit ev e g)
     = other_estimates v g @ filter (\<lambda>x. x \<noteq> v) (event_estimate e)"
  by (simp add: other_estimates_def emit_def cancel_def append_event_def Let_def)

lemma other_estimates_steps:
  assumes "estimated_time_remaining (stats g) = v"
  shows "other_estimates v (log_message ev m g) = other_estimates v g"
    "other_estimates v (update_state ev s m g) = other_estimates v g"
    "other_estimates v (snd (sleep ev d g)) = other_estimates v g"
    "other_estimates v (snd (sleep_after_audio ev cfg a p g)) = other_estimates v g"
    "other_estimates v (copy2 ev src dst g) = other_estimates v g"
    "other_estimates v (snd (tts_call ev cfg text f g)) = other_estimates v g"
    "other_estimates v (snd (cache_audio ev cfg text f g)) = other_estimates v g"
    "other_estimates v (set_error a x g) = other_estimates v g"
    "other_estimates v (set_audio_word_file a x g) = other_estimates v g"
    "other_estimates v (set_audio_sentence_file a x g) = other_estimates v g"
  using assms
  by (auto simp add: other_estimates_def emit_def cancel_def append_event_def
      log_message_def update_state_def sleep_def
      sleep_after_audio_def copy2_def tts_call_def tts_store_def write_file_def
      cache_audio_def store_in_cache_def set_error_def set_audio_word_file_def
      set_audio_sentence_file_def
      save_audio_cache_metadata_def Let_def split: tts_result.splits tts_artifact.splits)

lemma other_estimates_retry_word_audio:
  "estimated_time_remaining (stats g) = v \<Longrightarrow>
   other_estimates v (snd (retry_word_audio ev cfg a g)) = other_estimates v g"
  by (cases "fst (tts_call ev cfg (word (records g a)) (normalize_filename (word (records g a))) g)")
     (simp_all add: retry_word_audio_def Let_def case_prod_beta other_estimates_steps
        del: tts_call_fields(6))

lemma other_estimates_synthesize_word_audio:
  assumes "estimated_time_remaining (stats g) = v"
  shows "other_estimates v (snd (synthesize_word_audio ev cfg a g)) = other_estimates v g"
proof -
  define g1 where "g1 = update_state ev GENERATING_AUDIO (MsgGeneratingWordAudio (word (records g a))) g"
  define r where "r = fst (tts_call ev cfg (word (records g a)) (normalize_filename (word (records g a))) g1)"
  define g2 where "g2 = snd (tts_call ev cfg (word (records g a)) (normalize_filename (word (records g a))) g1)"
  define g4 where "g4 = snd (sleep ev 20 (log_message ev MsgRateLimit g2))"
  have e: "other_estimates v g2 = other_estimates v g" "other_estimates v g4 = other_estimates v g"
    "estimated_time_remaining (stats g4) = v"
    using assms by (simp_all add: g4_def g2_def g1_def other_estimates_steps)
  have w4: "word (records g4 a) = word (records g a)"
    by (simp add: g4_def g2_def g1_def)
  show ?thesis
  proof (cases r)
    case (TtsDone art)
    then show ?thesis
      using e(1) assms unfolding r_def g2_def g1_def
      by (simp add: synthesize_word_audio_def Let_def case_prod_beta other_estimates_steps
          del: tts_call_fields(6))
  next
    case (TtsClientError code m)
    then show ?thesis
      using e assms other_estimates_retry_word_audio [of g4 v ev cfg a]
      unfolding r_def g4_def g2_def g1_def
      by (simp add: synthesize_word_audio_def Let_def case_prod_beta other_estimates_steps
          del: tts_call_fields(6))
  next
    case (TtsRaises m)
    then show ?thesis
      using e(1) assms unfolding r_def g2_def g1_def
      by (simp add: synthesize_word_audio_def Let_def case_prod_beta other_estimates_steps
          del: tts_call_fields(6))
  qed
qed

lemma other_estimates_word_audio:
  "estimated_time_remaining (stats g) = v \<Longrightarrow>
   other_estimates v (snd (generate_word_audio ev cfg a g)) = other_estimates v g"
  by (simp add: generate_word_audio_def Let_def other_estimates_synthesize_word_audio
      other_estimates_steps split: option.splits)

lemma other_estimates_retry_sentence_audio:
  "estimated_time_remaining (stats g) = v \<Longrightarrow>
   other_estimates v (snd (retry_sentence_audio ev cfg a g)) = other_estimates v g"
  by (cases "fst (tts_call ev cfg (example_sentence_da (records g a))
                (normalize_filename (word (records g a)) @ ''_sentence'') g)")
     (simp_all add: retry_sentence_audio_def Let_def case_prod_beta other_estimates_steps
        del: tts_call_fields(6))

lemma other_estimates_sentence_audio:
  assumes "estimated_time_remaining (stats g) = v"
  shows "other_estimates v (snd (generate_sentence_audio ev cfg a g)) = other_estimates v g"
proof -
  define g1 where
    "g1 = update_state ev GENERATING_AUDIO (MsgGeneratingSentenceAudio (word (records g a))) g"
  define r where "r = fst (tts_call ev cfg (example_sentence_da (records g a))
                            (normalize_filename (word (records g a)) @ ''_sentence'') g1)"
  define g2 where "g2 = snd (tts_call ev cfg (example_sentence_da (records g a))
                            (normalize_filename (word (records g a)) @ ''_sentence'') g1)"
  define g4 where "g4 = snd (sleep ev 20 (log_message ev MsgRateLimit g2))"
  have e: "other_estimates v g2 = other_estimates v g" "other_estimates v g4 = other_estimates v g"
    "estimated_time_remaining (stats g4) = v"
    using assms by (simp_all add: g4_def g2_def g1_def other_estimates_steps)
  show ?thesis
  proof (cases r)
    case (TtsDone art)
    then show ?thesis
      using e(1) assms unfolding r_def g2_def g1_def
      by (simp add: generate_sentence_audio_def Let_def case_prod_beta other_estimates_steps
          del: tts_call_fields(6))
  next
    case (TtsClientError code m)
    then show ?thesis
      using e assms other_estimates_retry_sentence_audio [of g4 v ev cfg a]
      unfolding r_def g4_def g2_def g1_def
      by (simp add: generate_sentence_audio_def Let_def case_prod_beta other_estimates_steps
          del: tts_call_fields(6))
  next
    case (TtsRaises m)
    then show ?thesis
      using e(1) assms unfolding r_def g2_def g1_def
      by (simp add: generate_sentence_audio_def Let_def case_prod_beta other_estimates_steps
          del: tts_call_fields(6))
  qed
qed

lemma other_estimates_audio_stage:
  "estimated_time_remaining (stats g) = v \<Longrightarrow>
   other_estimates v (snd (generate_audio_for_flashcard ev cfg a g)) = other_estimates v g"
  by (simp add: generate_audio_for_flashcard_def case_prod_beta other_estimates_word_audio
      other_estimates_sentence_audio)

lemma audio_loop_cancelled: "cancelled g \<Longrightarrow> audio_loop ev cfg n i as g = g"
  by (cases as) simp_all

lemma audio_loop_append:
  "audio_loop ev cfg n i (xs @ zs) g
     = audio_loop ev cfg n (i + length xs) zs (audio_loop ev cfg n i xs g)"
  by (induction xs arbitrary: i g) (simp_all add: audio_loop_cancelled)

section \<open>Orchestrator: the estimate of the remaining time\<close>

text \<open>
  C9. Let the audio loop of \<open>run\<close> go over \<open>flashcards = xs @ a # ys\<close> and reach the
  record \<open>a\<close>, neither cancelled nor failed, in state \<open>g1\<close>. Then the Audio Stage is
  called for \<open>a\<close> on \<open>g1\<close> with \<open>estimated_time_remaining\<close> set to the number of
  records after \<open>a\<close> in the list, times 2, times the configured delay (the product of
  the source, read over the reals); every callback during that call is given this
  estimate, and it is the estimate when the call returns.
\<close>

theorem estimate_recomputed_before_audio_call:
  assumes fcs: "flashcards = xs @ a # ys"
    and g1: "g1 = audio_loop ev cfg (length flashcards) 1 xs g"
    and nc: "\<not> cancelled g1" and ne: "\<not> truthy (error (records g1 a))"
    and v: "v = Some (real (length ys * 2) * tts_delay cfg)"
    and g2: "g2 = g1\<lparr>stats := (stats g1)\<lparr>estimated_time_remaining := v\<rparr>\<rparr>"
    and r: "r = generate_audio_for_flashcard ev cfg a g2"
  shows "audio_loop ev cfg (length flashcards) 1 flashcards g
           = audio_loop ev cfg (length flashcards) (length xs + 2) ys
               (if fst r then snd r else add_failed_word (snd r))
       \<and> other_estimates v (snd r) = other_estimates v g1
       \<and> estimated_time_remaining (stats (snd r)) = v"
proof -
  have n: "length flashcards - Suc (length xs) = length ys"
    by (simp add: fcs)
  have step: "audio_step ev cfg (length flashcards) (1 + length xs) a g1
                = (if fst r then snd r else add_failed_word (snd r))"
    by (simp add: audio_step_def Let_def case_prod_beta n v g2 r)
  have "audio_loop ev cfg (length flashcards) 1 flashcards g
          = audio_loop ev cfg (length flashcards) (1 + length xs) (a # ys) g1"
    unfolding g1 fcs by (rule audio_loop_append)
  also have "\<dots> = audio_loop ev cfg (length flashcards) (length xs + 2) ys
                     (audio_step ev cfg (length flashcards) (1 + length xs) a g1)"
    using nc ne by simp
  finally have loop: "audio_loop ev cfg (length flashcards) 1 flashcards g
           = audio_loop ev cfg (length flashcards) (length xs + 2) ys
               (if fst r then snd r else add_failed_word (snd r))"
    by (simp only: step)
  have e2: "estimated_time_remaining (stats g2) = v"
    by (simp add: g2)
  have o2: "other_estimates v g2 = other_estimates v g1"
    by (simp add: g2 other_estimates_def)
  have o: "other_estimates v (snd r) = other_estimates v g1"
    using other_estimates_audio_stage [OF e2, of ev cfg a] o2 by (simp add: r)
  have e: "estimated_time_remaining (stats (snd r)) = v"
    using e2 by (simp add: r)
  show ?thesis using loop o e by blast
qed

theorem estimate_recomputed_before_audio_call_witness:
  "\<not> cancelled (audio_loop example_env example_config (length [0, 1 :: nat]) 1 [] two_cards_generator)
   \<and> \<not> truthy (error (records
          (audio_loop example_env example_config (length [0, 1 :: nat]) 1 [] two_cards_generator) 0))
   \<and> estimated_time_remaining (stats (snd (generate_audio_for_flashcard example_env example_config 0
        (two_cards_generator\<lparr>stats := (stats two_cards_generator)
           \<lparr>estimated_time_remaining := Some 13\<rparr>\<rparr>)))) = Some 13
   \<and> other_estimates (Some 13) (snd (generate_audio_for_flashcard example_env example_config 0
        (two_cards_generator\<lparr>stats := (stats two_cards_generator)
           \<lparr>estimated_time_remaining := Some 13\<rparr>\<rparr>))) = []"
proof -
  have v: "Some (13 :: real) = Some (real (length [1 :: nat] * 2) * tts_delay example_config)"
    by (simp add: example_config_def)
  have g1: "two_cards_generator
              = audio_loop example_env example_config (length [0, 1 :: nat]) 1 [] two_cards_generator"
    by simp
  have h: "\<not> cancelled two_cards_generator" "\<not> truthy (error (records two_cards_generator 0))"
    "other_estimates (Some 13) two_cards_generator = []"
    by (simp_all add: two_cards_generator_facts other_estimates_def)
  show ?thesis
    using estimate_recomputed_before_audio_call
        [of "[0, 1]" "[]" 0 "[1]" two_cards_generator example_env example_config
            two_cards_generator "Some 13", OF _ g1 h(1,2) v refl refl] h
    by simp
qed

section \<open>Orchestrator: the way to Completed\<close>

lemma transitions_emit [simp]:
  "transitions (emit ev e g) = transitions g @ transition e"
  by (simp add: transitions_def emit_def cancel_def append_event_def Let_def)

lemma transitions_steps [simp]:
  "transitions (log_message ev m g) = transitions g @ (if announces m then [state g] else [])"
  "transitions (update_state ev s m g) = transitions g @ (if announces m then [s] else [])"
  "transitions (copy2 ev src dst g) = transitions g"
  "transitions (set_error a x g) = transitions g"
  "transitions (remove_file p g) = transitions g"
  "transitions (snd (add_note ev n g)) = transitions g"
  by (simp_all add: log_message_def update_state_def copy2_def add_note_def Let_def)
     (simp_all add: transitions_def remove_file_def)

lemma exists_steps [simp]:
  "exists (copy2 ev src dst g) p = (if p = dst then exists g src else exists g p)"
  "exists (snd (add_note ev n g)) p = exists g p"
  by (simp_all add: exists_def add_note_def)

lemma add_notes_emit [simp]:
  "filter is_add_note (trace (emit ev e g))
     = filter is_add_note (trace g) @ (if is_add_note e then [e] else [])"
  by (simp add: emit_def cancel_def append_event_def Let_def)

lemma add_notes_steps [simp]:
  "filter is_add_note (trace (log_message ev m g)) = filter is_add_note (trace g)"
  "filter is_add_note (trace (update_state ev s m g)) = filter is_add_note (trace g)"
  "filter is_add_note (trace (copy2 ev src dst g)) = filter is_add_note (trace g)"
  "filter is_add_note (trace (remove_file p g)) = filter is_add_note (trace g)"
  by (simp_all add: log_message_def update_state_def copy2_def remove_file_def Let_def)

lemma get_anki_media_dir_facts [simp]:
  "transitions (snd (get_anki_media_dir ev g)) = transitions g"
  "exists (snd (get_anki_media_dir ev g)) p = exists g p"
  "filter is_add_note (trace (snd (get_anki_media_dir ev g))) = filter is_add_note (trace g)"
  "fst (get_anki_media_dir ev g)
     = (case anki_media_dir ev of Inr p \<Rightarrow> p | Inl m \<Rightarrow> fallback_media_dir ev)"
  by (simp_all add: get_anki_media_dir_def Let_def split: sum.splits)

lemma copy_audio_file_facts [simp]:
  "transitions (copy_audio_file ev cfg d f g) = transitions g"
  "filter is_add_note (trace (copy_audio_file ev cfg d f g)) = filter is_add_note (trace g)"
  by (simp_all add: copy_audio_file_def Let_def)

lemma copy_flashcard_audio_facts [simp]:
  "transitions (copy_flashcard_audio ev cfg d a g) = transitions g"
  "filter is_add_note (trace (copy_flashcard_audio ev cfg d a g)) = filter is_add_note (trace g)"
  by (simp_all add: copy_flashcard_audio_def Let_def split: option.splits)

lemma copy_loop_facts [simp]:
  "transitions (fold (copy_flashcard_audio ev cfg d) as g) = transitions g"
  "filter is_add_note (trace (fold (copy_flashcard_audio ev cfg d) as g))
     = filter is_add_note (trace g)"
  by (induction as arbitrary: g) simp_all

lemma copy_audio_to_anki_facts [simp]:
  "transitions (snd (copy_audio_to_anki ev cfg as g)) = transitions g @ [COPYING_AUDIO]"
  "filter is_add_note (trace (snd (copy_audio_to_anki ev cfg as g)))
     = filter is_add_note (trace g)"
  "fst (copy_audio_to_anki ev cfg as g)
     = exists g (case anki_media_dir ev of Inr p \<Rightarrow> p | Inl m \<Rightarrow> fallback_media_dir ev)"
  by (simp_all add: copy_audio_to_anki_def Let_def case_prod_beta)

lemma send_flashcard_transitions [simp]:
  "transitions (send_flashcard ev cfg a g) = transitions g"
  by (simp add: send_flashcard_def send_reverse_note_def Let_def case_prod_beta
      split: option.splits)

lemma send_loop_transitions [simp]:
  "transitions (fold (send_flashcard ev cfg) as g) = transitions g"
  by (induction as arbitrary: g) simp_all

lemma send_to_anki_transitions [simp]:
  "transitions (send_to_anki ev cfg as g) = transitions g @ [SENDING_TO_ANKI]"
  by (simp add: send_to_anki_def)

lemma complete_run_facts [simp]:
  "transitions (complete_run ev cfg as g) = transitions g @ [COMPLETED]"
  "filter is_add_note (trace (complete_run ev cfg as g)) = filter is_add_note (trace g)"
  by (simp_all add: complete_run_def Let_def)

lemma publish_and_complete_transitions:
  "transitions (publish_and_complete ev cfg as g)
     = transitions g @ [COPYING_AUDIO]
       @ (if fst (copy_audio_to_anki ev cfg as g) then [SENDING_TO_ANKI] else [])
       @ [COMPLETED]"
  by (simp add: publish_and_complete_def Let_def case_prod_beta del: copy_audio_to_anki_facts(3))

lemma publish_and_complete_without_media_dir:
  "\<not> fst (copy_audio_to_anki ev cfg as g) \<Longrightarrow>
   filter is_add_note (trace (publish_and_complete ev cfg as g)) = filter is_add_note (trace g)"
  by (simp add: publish_and_complete_def Let_def case_prod_beta del: copy_audio_to_anki_facts(3))


lemma state_setters [simp]:
  "state (set_error a x g) = state g"
  "state (set_audio_word_file a f g) = state g"
  "state (set_audio_sentence_file a f g) = state g"
  "state (write_file p c g) = state g"
  "state (remove_file p g) = state g"
  "state (save_checkpoint cfg g) = state g"
  "state (snd (alloc fc g)) = state g"
  "state (add_failed_word g) = state g"
  "state (tts_store cfg text f art g) = state g"
  by (simp_all add: set_error_def set_audio_word_file_def set_audio_sentence_file_def
      write_file_def remove_file_def save_checkpoint_def alloc_def add_failed_word_def
      tts_store_def split: tts_artifact.splits)

lemma not_completed_emit:
  "state g \<noteq> COMPLETED \<Longrightarrow> state (emit ev e g) \<noteq> COMPLETED"
  by (simp add: emit_def cancel_def append_event_def Let_def)

lemma not_completed_update_state:
  "s \<noteq> COMPLETED \<Longrightarrow> state (update_state ev s m g) \<noteq> COMPLETED"
  by (simp add: update_state_def Let_def not_completed_emit)

lemma not_completed_steps:
  assumes "state g \<noteq> COMPLETED"
  shows "state (log_message ev m g) \<noteq> COMPLETED"
    "state (snd (sleep ev d g)) \<noteq> COMPLETED"
    "state (snd (sleep_after_audio ev cfg a p g)) \<noteq> COMPLETED"
    "state (copy2 ev src dst g) \<noteq> COMPLETED"
    "state (snd (tts_call ev cfg text f g)) \<noteq> COMPLETED"
    "state (snd (cache_audio ev cfg text f g)) \<noteq> COMPLETED"
  using assms
  by (simp_all add: not_completed_emit log_message_def sleep_def sleep_after_audio_def
      copy2_def tts_call_def cache_audio_def store_in_cache_def save_audio_cache_metadata_def
      Let_def split: tts_result.splits option.splits)

lemma not_completed_retry_word_audio:
  "state g \<noteq> COMPLETED \<Longrightarrow> state (snd (retry_word_audio ev cfg a g)) \<noteq> COMPLETED"
  by (cases "fst (tts_call ev cfg (word (records g a)) (normalize_filename (word (records g a))) g)")
     (simp_all add: retry_word_audio_def Let_def case_prod_beta not_completed_steps
        del: tts_call_fields(6))

lemma not_completed_synthesize_word_audio:
  "state (snd (synthesize_word_audio ev cfg a g)) \<noteq> COMPLETED"
proof -
  define g1 where "g1 = update_state ev GENERATING_AUDIO (MsgGeneratingWordAudio (word (records g a))) g"
  define r where "r = fst (tts_call ev cfg (word (records g a)) (normalize_filename (word (records g a))) g1)"
  define g2 where "g2 = snd (tts_call ev cfg (word (records g a)) (normalize_filename (word (records g a))) g1)"
  define g4 where "g4 = snd (sleep ev 20 (log_message ev MsgRateLimit g2))"
  have e: "state g2 \<noteq> COMPLETED" "state g4 \<noteq> COMPLETED"
    by (simp_all add: g4_def g2_def g1_def not_completed_steps not_completed_update_state)
  show ?thesis
  proof (cases r)
    case (TtsDone art)
    then show ?thesis
      using e(1) unfolding r_def g2_def g1_def
      by (simp add: synthesize_word_audio_def Let_def case_prod_beta not_completed_steps
          del: tts_call_fields(6))
  next
    case (TtsClientError code m)
    then show ?thesis
      using e not_completed_retry_word_audio [of g4 ev cfg a]
      unfolding r_def g4_def g2_def g1_def
      by (simp add: synthesize_word_audio_def Let_def case_prod_beta not_completed_steps
          del: tts_call_fields(6))
  next
    case (TtsRaises m)
    then show ?thesis
      using e(1) unfolding r_def g2_def g1_def
      by (simp add: synthesize_word_audio_def Let_def case_prod_beta not_completed_steps
          del: tts_call_fields(6))
  qed
qed

lemma not_completed_word_audio:
  "state g \<noteq> COMPLETED \<Longrightarrow> state (snd (generate_word_audio ev cfg a g)) \<noteq> COMPLETED"
  by (simp add: generate_word_audio_def Let_def not_completed_synthesize_word_audio
      not_completed_steps split: option.splits)

lemma not_completed_retry_sentence_audio:
  "state g \<noteq> COMPLETED \<Longrightarrow> state (snd (retry_sentence_audio ev cfg a g)) \<noteq> COMPLETED"
  by (cases "fst (tts_call ev cfg (example_sentence_da (records g a))
                (normalize_filename (word (records g a)) @ ''_sentence'') g)")
     (simp_all add: retry_sentence_audio_def Let_def case_prod_beta not_completed_steps
        del: tts_call_fields(6))

lemma not_completed_sentence_audio:
  "state (snd (generate_sentence_audio ev cfg a g)) \<noteq> COMPLETED"
proof -
  define g1 where
    "g1 = update_state ev GENERATING_AUDIO (MsgGeneratingSentenceAudio (word (records g a))) g"
  define r where "r = fst (tts_call ev cfg (example_sentence_da (records g a))
                            (normalize_filename (word (records g a)) @ ''_sentence'') g1)"
  define g2 where "g2 = snd (tts_call ev cfg (example_sentence_da (records g a))
                            (normalize_filename (word (records g a)) @ ''_sentence'') g1)"
  define g4 where "g4 = snd (sleep ev 20 (log_message ev MsgRateLimit g2))"
  have e: "state g2 \<noteq> COMPLETED" "state g4 \<noteq> COMPLETED"
    by (simp_all add: g4_def g2_def g1_def not_completed_steps not_completed_update_state)
  show ?thesis
  proof (cases r)
    case (TtsDone art)
    then show ?thesis
      using e(1) unfolding r_def g2_def g1_def
      by (simp add: generate_sentence_audio_def Let_def case_prod_beta not_completed_steps
          del: tts_call_fields(6))
  next
    case (TtsClientError code m)
    then show ?thesis
      using e not_completed_retry_sentence_audio [of g4 ev cfg a]
      unfolding r_def g4_def g2_def g1_def
      by (simp add: generate_sentence_audio_def Let_def case_prod_beta not_completed_steps
          del: tts_call_fields(6))
  next
    case (TtsRaises m)
    then show ?thesis
      using e(1) unfolding r_def g2_def g1_def
      by (simp add: generate_sentence_audio_def Let_def case_prod_beta not_completed_steps
          del: tts_call_fields(6))
  qed
qed

lemma not_completed_audio_stage:
  "state g \<noteq> COMPLETED \<Longrightarrow> state (snd (generate_audio_for_flashcard ev cfg a g)) \<noteq> COMPLETED"
  by (simp add: generate_audio_for_flashcard_def case_prod_beta not_completed_word_audio
      not_completed_sentence_audio)

lemma not_completed_audio_step:
  "state g \<noteq> COMPLETED \<Longrightarrow> state (audio_step ev cfg n i a g) \<noteq> COMPLETED"
  by (simp add: audio_step_def Let_def case_prod_beta not_completed_audio_stage)

lemma not_completed_audio_loop:
  "state g \<noteq> COMPLETED \<Longrightarrow> state (audio_loop ev cfg n i as g) \<noteq> COMPLETED"
  by (induction as arbitrary: g i) (simp_all add: not_completed_audio_step)

lemma not_completed_content_stage:
  "state g \<noteq> COMPLETED \<Longrightarrow> state (snd (generate_content_for_word ev w g)) \<noteq> COMPLETED"
  by (simp add: generate_content_for_word_def content_failure_def Let_def case_prod_beta
      not_completed_steps not_completed_emit not_completed_update_state
      split: option.splits gen_result.splits sum.splits)

lemma not_completed_content_step:
  "state g \<noteq> COMPLETED \<Longrightarrow> state (snd (content_step ev cfg n i w fcs g)) \<noteq> COMPLETED"
  by (simp add: content_step_def Let_def case_prod_beta not_completed_content_stage
      not_completed_steps)

lemma not_completed_content_loop:
  "state g \<noteq> COMPLETED \<Longrightarrow> state (snd (content_loop ev cfg n i ws fcs g)) \<noteq> COMPLETED"
  by (induction ws arbitrary: g i fcs) (simp_all add: case_prod_beta not_completed_content_step)

lemma not_completed_read_words:
  "state (snd (read_words ev cfg g)) \<noteq> COMPLETED"
  by (simp add: read_words_def Let_def not_completed_steps not_completed_update_state
      split: option.splits file_content.splits)

lemma content_loop_all_words:
  "\<not> cancelled (snd (content_loop ev cfg n i ws fcs g)) \<Longrightarrow>
   length (fst (content_loop ev cfg n i ws fcs g)) = length fcs + length ws"
proof (induction ws arbitrary: g i fcs)
  case Nil
  then show ?case by simp
next
  case (Cons w ws)
  show ?case
  proof (cases "cancelled g")
    case True
    then show ?thesis using Cons.prems by simp
  next
    case False
    then show ?thesis
      using Cons.prems Cons.IH [of "Suc i" "fst (content_step ev cfg n i w fcs g)"
          "snd (content_step ev cfg n i w fcs g)"]
      by (simp add: case_prod_beta content_step_def Let_def)
  qed
qed

end
